theory Spec2Isabelle
  imports Complex_Main
begin

section \<open>Sensitivity analyser (services/sensitivity.service.enhanced.js)\<close>

text \<open>
  JavaScript numbers are modelled as exact reals; the rounding of IEEE doubles is not
  modelled.  A field that can be \<^verbatim>\<open>undefined\<close> or \<^verbatim>\<open>NaN\<close> is a \<open>real option\<close> with
  \<open>None\<close> for "not a number": every comparison with it is false, as in JavaScript.
\<close>

record thresholds =
  duration_veryLong :: real
  duration_suspicious :: real
  bitrate_veryHigh :: real
  bitrate_veryLow :: real
  resolution_minWidth :: real
  resolution_maxWidth :: real
  resolution_minHeight :: real
  resolution_maxHeight :: real
  frameRate_min :: real
  frameRate_max :: real

text \<open>The values the constructor installs (\<^verbatim>\<open>updateThresholds\<close> may replace them).\<close>

definition default_thresholds :: thresholds where
  "default_thresholds =
     \<lparr> duration_veryLong = 7200, duration_suspicious = 10800,
       bitrate_veryHigh = 15000000, bitrate_veryLow = 100000,
       resolution_minWidth = 320, resolution_maxWidth = 7680,
       resolution_minHeight = 240, resolution_maxHeight = 4320,
       frameRate_min = 15, frameRate_max = 120 \<rparr>"

text \<open>\<^verbatim>\<open>this.categoryWeights\<close>: a lookup in a fixed table.\<close>

definition categoryWeights :: "(string \<times> real) list" where
  "categoryWeights =
     [(''long_duration'', 0.1), (''unusual_resolution'', 0.15), (''high_bitrate'', 0.1),
      (''low_bitrate'', 0.15), (''no_audio'', 0.05), (''no_video_stream'', 0.3),
      (''corrupt_metadata'', 0.25), (''unusual_framerate'', 0.1),
      (''suspicious_aspect_ratio'', 0.1), (''black_frames'', 0.2), (''audio_issues'', 0.15)]"

definition weight :: "string \<Rightarrow> real" where
  "weight c = (case map_of categoryWeights c of Some w \<Rightarrow> w | None \<Rightarrow> 0)"

text \<open>
  The object \<^verbatim>\<open>extractDetailedMetadata\<close> returns: the probe of \<^verbatim>\<open>ffmpegService.extractMetadata\<close>
  (width, height and bitrate default to 0, the codecs to \<^verbatim>\<open>'unknown'\<close> and \<^verbatim>\<open>'none'\<close>) with
  the aspect ratio added.  \<open>aspectRatio = None\<close> is the \<^verbatim>\<open>0\<close> that \<^verbatim>\<open>calculateAspectRatio\<close>
  returns for a missing dimension; otherwise it holds the field \<^verbatim>\<open>ratio\<close>.
\<close>

record metadata =
  duration :: "real option"
  width :: real
  height :: real
  codec :: string
  bitrate :: real
  frameRate :: "real option"
  audioCodec :: string
  aspectRatio :: "real option"

definition gt :: "real option \<Rightarrow> real \<Rightarrow> bool" where
  "gt x c = (case x of None \<Rightarrow> False | Some v \<Rightarrow> v > c)"

definition lt :: "real option \<Rightarrow> real \<Rightarrow> bool" where
  "lt x c = (case x of None \<Rightarrow> False | Some v \<Rightarrow> v < c)"

definition calculateAspectRatio :: "real \<Rightarrow> real \<Rightarrow> real option" where
  "calculateAspectRatio w h = (if w = 0 \<or> h = 0 then None else Some (w / h))"

definition commonRatios :: "(real \<times> real) list" where
  "commonRatios = [(16 / 9, 0.05), (4 / 3, 0.05), (21 / 9, 0.05), (1, 0.05), (9 / 16, 0.05)]"

definition isCommonAspectRatio :: "real option \<Rightarrow> bool" where
  "isCommonAspectRatio a =
     (case a of None \<Rightarrow> False
      | Some r \<Rightarrow> r \<noteq> 0 \<and> list_ex (\<lambda>(v, tol). \<bar>r - v\<bar> < tol) commonRatios)"

text \<open>
  Each rule of the analyser is \<^verbatim>\<open>if (cond) { issues.push(name); score += w }\<close>; the pair
  \<open>(issues, score)\<close> is threaded through the rules in source order.
\<close>

type_synonym acc = "string list \<times> real"

definition push :: "string \<Rightarrow> real \<Rightarrow> acc \<Rightarrow> acc" where
  "push issue w a = (fst a @ [issue], snd a + w)"

definition rule :: "bool \<Rightarrow> string \<Rightarrow> real \<Rightarrow> acc \<Rightarrow> acc" where
  "rule c issue w a = (if c then push issue w a else a)"

text \<open>The duration rule of \<^verbatim>\<open>analyzeVideoCharacteristics\<close>: an if / else-if chain.\<close>

definition duration_rule :: "thresholds \<Rightarrow> metadata \<Rightarrow> acc \<Rightarrow> acc" where
  "duration_rule th m a =
     (if gt (duration m) (duration_suspicious th)
        then push ''extremely_long_duration'' (weight ''long_duration'' * 1.5) a
      else if gt (duration m) (duration_veryLong th)
        then push ''long_duration'' (weight ''long_duration'') a
      else a)"

definition analyzeVideoCharacteristics :: "thresholds \<Rightarrow> metadata \<Rightarrow> acc" where
  "analyzeVideoCharacteristics th m =
     (rule (lt (frameRate m) (frameRate_min th) \<and> gt (frameRate m) 0)
        ''very_low_framerate'' (weight ''unusual_framerate'')
      (rule (gt (frameRate m) (frameRate_max th))
        ''unusually_high_framerate'' (weight ''unusual_framerate'')
      (rule (bitrate m < bitrate_veryLow th \<and> gt (duration m) 60)
        ''very_low_bitrate'' (weight ''low_bitrate'')
      (rule (bitrate m > bitrate_veryHigh th)
        ''extremely_high_bitrate'' (weight ''high_bitrate'')
      (rule (\<not> isCommonAspectRatio (aspectRatio m))
        ''unusual_aspect_ratio'' (weight ''suspicious_aspect_ratio'')
      (rule (width m < resolution_minWidth th \<or> height m < resolution_minHeight th)
        ''very_low_resolution'' (weight ''unusual_resolution'')
      (rule (width m > resolution_maxWidth th \<or> height m > resolution_maxHeight th)
        ''extremely_high_resolution'' (weight ''unusual_resolution'')
      (duration_rule th m ([], 0)))))))))"

text \<open>\<^verbatim>\<open>checkVideoIntegrity(metadata, video)\<close>; only \<^verbatim>\<open>video.fileSize\<close> is read.\<close>

definition checkVideoIntegrity :: "metadata \<Rightarrow> real \<Rightarrow> acc" where
  "checkVideoIntegrity m fileSize =
     (rule (case duration m of None \<Rightarrow> False | Some d \<Rightarrow> fileSize < d * 100000)
        ''suspiciously_small_file'' 0.15
      (rule (codec m = [] \<or> codec m = ''unknown'') ''unknown_codec'' 0.1
      (rule (width m = 0 \<or> height m = 0) ''no_video_stream'' (weight ''no_video_stream'')
      (rule (duration m = None \<or> duration m = Some 0) ''no_duration'' (weight ''corrupt_metadata'')
        ([], 0)))))"

text \<open>
  \<^verbatim>\<open>toLowerCase\<close> on the ASCII letters; other bytes are left as they are.  JavaScript also
  maps letters outside ASCII, so the model is that of the code on ASCII text only.
\<close>

definition lower_char :: "char \<Rightarrow> char" where
  "lower_char c =
     (case map_of (zip ''ABCDEFGHIJKLMNOPQRSTUVWXYZ'' ''abcdefghijklmnopqrstuvwxyz'') c of
        Some l \<Rightarrow> l | None \<Rightarrow> c)"

definition toLowerCase :: "string \<Rightarrow> string" where
  "toLowerCase s = map lower_char s"

definition isCommonAudioCodec :: "string \<Rightarrow> bool" where
  "isCommonAudioCodec c =
     (toLowerCase c \<in> set [''aac'', ''mp3'', ''opus'', ''vorbis'', ''ac3'', ''pcm''])"

definition analyzeAudioCharacteristics :: "metadata \<Rightarrow> acc" where
  "analyzeAudioCharacteristics m =
     (rule (audioCodec m \<noteq> [] \<and> \<not> isCommonAudioCodec (audioCodec m)) ''unusual_audio_codec'' 0.05
      (rule ((audioCodec m = ''none'' \<or> audioCodec m = []) \<and> gt (duration m) 60)
        ''no_audio_long_video'' (weight ''no_audio'')
        ([], 0)))"

text \<open>
  \<^verbatim>\<open>video.fileSize / metadata.duration\<close>: a division by zero gives \<^verbatim>\<open>Infinity\<close> (or
  \<^verbatim>\<open>NaN\<close> for 0/0), which HOL's total division would hide.
\<close>

datatype jsnum = Fin real | PosInf | NegInf | NaN

definition js_div :: "real \<Rightarrow> real option \<Rightarrow> jsnum" where
  "js_div x d =
     (case d of None \<Rightarrow> NaN
      | Some y \<Rightarrow> if y \<noteq> 0 then Fin (x / y)
                  else if x > 0 then PosInf else if x < 0 then NegInf else NaN)"

fun js_gt :: "jsnum \<Rightarrow> real \<Rightarrow> bool" where
  "js_gt (Fin x) c = (x > c)"
| "js_gt PosInf c = True"
| "js_gt NegInf c = False"
| "js_gt NaN c = False"

fun js_lt :: "jsnum \<Rightarrow> real \<Rightarrow> bool" where
  "js_lt (Fin x) c = (x < c)"
| "js_lt PosInf c = False"
| "js_lt NegInf c = True"
| "js_lt NaN c = False"

definition analyzeFileConsistency :: "metadata \<Rightarrow> real \<Rightarrow> string \<Rightarrow> acc" where
  "analyzeFileConsistency m fileSize format =
     (let bytesPerSecond = js_div fileSize (duration m) in
      rule (toLowerCase format \<notin> set [''mp4'', ''avi'', ''mov'', ''mkv'', ''webm''])
        ''unusual_format'' 0.05
      (rule (js_lt bytesPerSecond 50000 \<and> gt (duration m) 60) ''low_data_rate'' 0.15
      (rule (js_gt bytesPerSecond 10000000) ''high_data_rate'' 0.1
        ([], 0))))"

text \<open>
  The result object of \<^verbatim>\<open>analyze\<close> (the fields the worker reads).  \<open>R_status\<close> is the
  returned \<^verbatim>\<open>status\<close> string.
\<close>

datatype sens_status = Safe | Flagged

record analysis =
  R_status :: sens_status
  R_score :: real
  R_categories :: "string list"

text \<open>
  The end of \<^verbatim>\<open>analyze\<close>: the clamp \<^verbatim>\<open>Math.min(1, totalScore)\<close>, the two thresholds and
  the returned object.  The local \<^verbatim>\<open>status\<close> takes \<^verbatim>\<open>'review_needed'\<close> in the middle band
  and is returned as \<^verbatim>\<open>'flagged'\<close>.
\<close>

definition finish :: "acc \<Rightarrow> analysis" where
  "finish a =
     (let detectedIssues = fst a; totalScore = min 1 (snd a) in
      if totalScore > 0.7 then
        \<lparr> R_status = Flagged, R_score = totalScore, R_categories = detectedIssues \<rparr>
      else if totalScore > 0.4 then
        \<lparr> R_status = Flagged, R_score = totalScore,
          R_categories = detectedIssues @ [''manual_review_recommended''] \<rparr>
      else
        \<lparr> R_status = Safe, R_score = totalScore, R_categories = detectedIssues \<rparr>)"

definition add_acc :: "acc \<Rightarrow> acc \<Rightarrow> acc" where
  "add_acc a b = (fst a @ fst b, snd a + snd b)"

text \<open>
  \<^verbatim>\<open>analyze(videoPath, video)\<close>.  \<open>probe = Inl message\<close>: \<^verbatim>\<open>extractDetailedMetadata\<close> threw,
  and the catch block returns the error result with the error's message.  \<open>frames\<close>: the
  result of \<^verbatim>\<open>analyzeFrames\<close> when \<^verbatim>\<open>ENABLE_FRAME_ANALYSIS\<close> is set and it succeeded, else
  \<open>None\<close>.  The sub-analyses are accumulated in source order.
\<close>

definition analyze ::
  "thresholds \<Rightarrow> (string + metadata) \<Rightarrow> real \<Rightarrow> string \<Rightarrow> acc option \<Rightarrow> analysis" where
  "analyze th probe fileSize format frames =
     (case probe of
        Inl message \<Rightarrow>
          \<lparr> R_status = Safe, R_score = 0, R_categories = [''analysis_error'', message] \<rparr>
      | Inr m \<Rightarrow>
          (let integrityCheck = checkVideoIntegrity m fileSize;
               a1 = (if fst integrityCheck \<noteq> [] then integrityCheck else ([], 0));
               a2 = add_acc a1 (analyzeVideoCharacteristics th m);
               a3 = add_acc a2 (analyzeAudioCharacteristics m);
               a4 = add_acc a3 (analyzeFileConsistency m fileSize format);
               a5 = (case frames of None \<Rightarrow> a4 | Some frameAnalysis \<Rightarrow> add_acc a4 frameAnalysis)
           in finish a5))"

text \<open>The worker's mapping of the result to a level (workers/videoProcessor.worker.js).\<close>

datatype level = Low | Medium | High

definition sensitivityLevel :: "analysis \<Rightarrow> level" where
  "sensitivityLevel r =
     (if R_status r = Flagged then (if R_score r > 0.7 then High else Medium)
      else if R_score r > 0.3 then Medium
      else Low)"


section \<open>Strings and numbers of the request layer\<close>

text \<open>
  \<^verbatim>\<open>s.replace(/pat/, rep)\<close> for a pattern without metacharacters: the first occurrence of
  \<open>pat\<close> is replaced, anywhere in the string.
\<close>

fun replace_first :: "string \<Rightarrow> string \<Rightarrow> string \<Rightarrow> string" where
  "replace_first pat rep [] = (if pat = [] then rep else [])"
| "replace_first pat rep (c # cs) =
     (if take (length pat) (c # cs) = pat then rep @ drop (length pat) (c # cs)
      else c # replace_first pat rep cs)"

text \<open>\<^verbatim>\<open>s.split(d)\<close> for a one-character separator; the result is never empty.\<close>

fun split_on :: "char \<Rightarrow> string \<Rightarrow> string list" where
  "split_on d [] = [[]]"
| "split_on d (c # cs) =
     (if c = d then [] # split_on d cs
      else (case split_on d cs of [] \<Rightarrow> [[c]] | p # ps \<Rightarrow> (c # p) # ps))"

definition is_digit :: "char \<Rightarrow> bool" where
  "is_digit c = (c \<in> set ''0123456789'')"

definition digit_val :: "char \<Rightarrow> nat" where
  "digit_val c =
     (case map_of (zip ''0123456789'' [0, 1, 2, 3, 4, 5, 6, 7, 8, 9]) c of
        Some v \<Rightarrow> v | None \<Rightarrow> 0)"

definition read_nat :: "string \<Rightarrow> nat" where
  "read_nat ds = fold (\<lambda>c a. 10 * a + digit_val c) ds 0"

text \<open>
  The ASCII white space that \<^verbatim>\<open>parseInt\<close> and \<^verbatim>\<open>trim\<close> skip: space, TAB, LF, VT, FF, CR.
  JavaScript also skips the white space outside ASCII (U+00A0 and others), so the model
  is that of the code on ASCII text only.
\<close>

definition is_space :: "char \<Rightarrow> bool" where
  "is_space c = (c \<in> set [CHR '' '', CHR 0x09, CHR 0x0A, CHR 0x0B, CHR 0x0C, CHR 0x0D])"

text \<open>
  \<^verbatim>\<open>parseInt(s, 10)\<close>: leading white space, an optional sign, then the longest run of
  decimal digits; \<open>None\<close> is \<^verbatim>\<open>NaN\<close> (no digit).  The value is the exact integer.
\<close>

definition parseInt :: "string \<Rightarrow> int option" where
  "parseInt s =
     (let t = dropWhile is_space s;
          neg = (t \<noteq> [] \<and> hd t = CHR ''-'');
          u = (if t \<noteq> [] \<and> (hd t = CHR ''-'' \<or> hd t = CHR ''+'') then tl t else t);
          ds = takeWhile is_digit u
      in if ds = [] then None
         else Some (if neg then - int (read_nat ds) else int (read_nat ds)))"

text \<open>A non-negative integer in a template literal: its decimal digits.\<close>

fun show_nat :: "nat \<Rightarrow> string" where
  "show_nat n =
     (if n < 10 then [''0123456789'' ! n]
      else show_nat (n div 10) @ [''0123456789'' ! (n mod 10)])"

declare show_nat.simps [simp del]

section \<open>Data model (models/User.js, Organization, Video)\<close>

type_synonym objectId = nat

type_synonym bytes = "char list"

datatype role = Viewer | Editor | Admin

datatype visibility = Private | Organization | Public

datatype vstatus = Uploading | Processing | Completed | Failed

record user =
  u_id :: objectId
  u_email :: string
  u_name :: string
  u_role :: role
  u_organizationId :: objectId
  u_isActive :: bool
  u_refreshToken :: "string option"

record organization =
  o_id :: objectId
  o_name :: string
  o_slug :: string
  o_ownerId :: "objectId option"

record video =
  v_id :: objectId
  v_title :: string
  v_organizationId :: objectId
  v_uploadedBy :: objectId
  v_visibility :: visibility
  v_allowedUsers :: "objectId list"
  v_status :: vstatus
  v_fileSize :: nat
  v_format :: string
  v_storageKey :: string
  v_viewCount :: nat

text \<open>
  The collections of the document store, the files of the upload directory by path, and
  the supply of fresh document ids.
\<close>

record state =
  users :: "user list"
  organizations :: "organization list"
  videos :: "video list"
  files :: "string \<rightharpoonup> bytes"
  next_id :: objectId

definition User_findById :: "state \<Rightarrow> objectId \<Rightarrow> user option" where
  "User_findById st i = find (\<lambda>u. u_id u = i) (users st)"

definition Video_findById :: "state \<Rightarrow> objectId \<Rightarrow> video option" where
  "Video_findById st i = find (\<lambda>v. v_id v = i) (videos st)"

text \<open>
  What is outside the repository's sources: \<^verbatim>\<open>jsonwebtoken\<close> with the two configured
  secrets, and \<^verbatim>\<open>storageService.getLocalPath\<close>.  They are parameters of the model.
  A verification either returns the decoded payload or throws one of two errors.
\<close>

record payload =
  p_userId :: objectId
  p_role :: "role option"
  p_organizationId :: "objectId option"

datatype verified = Decoded payload | TokenExpiredError | JsonWebTokenError

record env =
  verify_access :: "string \<Rightarrow> verified"
  verify_refresh :: "string \<Rightarrow> verified"
  generateAccessToken :: "user \<Rightarrow> string"
  generateRefreshToken :: "user \<Rightarrow> string"
  getLocalPath :: "string \<Rightarrow> string"

section \<open>Requests and responses\<close>

text \<open>
  The fields of an Express request that the handlers read; \<open>req_userId\<close>,
  \<open>req_organizationId\<close> and \<open>req_userRole\<close> are the ones the auth middleware attaches.
  \<open>query_token\<close> is the \<^verbatim>\<open>token\<close> query parameter the frontend appends to stream URLs.
\<close>

record request =
  params_id :: objectId
  headers_authorization :: "string option"
  headers_range :: "string option"
  query_token :: "string option"
  cookies_refreshToken :: "string option"
  req_userId :: "objectId option"
  req_organizationId :: "objectId option"
  req_userRole :: "role option"

record user_summary =
  s_id :: objectId
  s_email :: string
  s_name :: string
  s_role :: role
  s_organizationId :: objectId

datatype body =
    JsonError string
  | JsonVideo video
  | JsonAuth string user_summary
  | Stream bytes

record response =
  res_status :: nat
  res_headers :: "(string \<times> string) list"
  res_body :: body

definition json_error :: "nat \<Rightarrow> string \<Rightarrow> response" where
  "json_error code message =
     \<lparr> res_status = code, res_headers = [], res_body = JsonError message \<rparr>"

definition header :: "response \<Rightarrow> string \<Rightarrow> string option" where
  "header res name = map_of (res_headers res) name"

section \<open>Auth middleware (middleware/auth.js)\<close>

definition startsWith :: "string \<Rightarrow> string \<Rightarrow> bool" where
  "startsWith s p = (take (length p) s = p)"

definition attach :: "user \<Rightarrow> request \<Rightarrow> request" where
  "attach u req =
     req \<lparr> req_userId := Some (u_id u), req_organizationId := Some (u_organizationId u),
           req_userRole := Some (u_role u) \<rparr>"

text \<open>\<^verbatim>\<open>authenticate\<close>: \<open>Inl\<close> is the response it sends itself, \<open>Inr\<close> the request passed on.\<close>

definition authenticate :: "env \<Rightarrow> state \<Rightarrow> request \<Rightarrow> response + request" where
  "authenticate e st req =
     (case headers_authorization req of
        None \<Rightarrow> Inl (json_error 401 ''No token provided'')
      | Some authHeader \<Rightarrow>
          if \<not> startsWith authHeader ''Bearer '' then Inl (json_error 401 ''No token provided'')
          else (case verify_access e (drop 7 authHeader) of
                  TokenExpiredError \<Rightarrow> Inl (json_error 401 ''Token expired'')
                | JsonWebTokenError \<Rightarrow> Inl (json_error 401 ''Invalid token'')
                | Decoded decoded \<Rightarrow>
                    (case User_findById st (p_userId decoded) of
                       None \<Rightarrow> Inl (json_error 401 ''Invalid token or inactive user'')
                     | Some u \<Rightarrow>
                         if \<not> u_isActive u
                           then Inl (json_error 401 ''Invalid token or inactive user'')
                         else Inr (attach u req))))"

text \<open>
  \<^verbatim>\<open>optionalAuth\<close> reads the \<^verbatim>\<open>Authorization\<close> header only, and passes the request on
  unchanged when the header is missing, the token does not verify, or the user is
  missing or inactive.
\<close>

definition optionalAuth :: "env \<Rightarrow> state \<Rightarrow> request \<Rightarrow> request" where
  "optionalAuth e st req =
     (case headers_authorization req of
        None \<Rightarrow> req
      | Some authHeader \<Rightarrow>
          if \<not> startsWith authHeader ''Bearer '' then req
          else (case verify_access e (drop 7 authHeader) of
                  Decoded decoded \<Rightarrow>
                    (case User_findById st (p_userId decoded) of
                       None \<Rightarrow> req
                     | Some u \<Rightarrow> if u_isActive u then attach u req else req)
                | _ \<Rightarrow> req))"

section \<open>Streaming (controllers/stream.controller.js)\<close>

text \<open>
  \<^verbatim>\<open>getMimeType\<close>: the lookup in the table of MIME types, among the keys the table lists
  (the formats of stored videos are file extensions, not names of inherited members of
  a JavaScript object).
\<close>

definition getMimeType :: "string \<Rightarrow> string" where
  "getMimeType format =
     (case map_of [(''mp4'', ''video/mp4''), (''webm'', ''video/webm''), (''ogg'', ''video/ogg''),
                   (''avi'', ''video/x-msvideo''), (''mov'', ''video/quicktime''),
                   (''mkv'', ''video/x-matroska'')] (toLowerCase format) of
        Some t \<Rightarrow> t | None \<Rightarrow> ''video/mp4'')"

text \<open>
  The parsing of the \<^verbatim>\<open>Range\<close> header: \<^verbatim>\<open>parts = range.replace(/bytes=/, '').split('-')\<close>,
  \<^verbatim>\<open>start = parseInt(parts[0], 10)\<close> and
  \<^verbatim>\<open>end = parts[1] ? parseInt(parts[1], 10) : videoSize - 1\<close>.
\<close>

definition parseRange :: "nat \<Rightarrow> string \<Rightarrow> int option \<times> int option" where
  "parseRange videoSize rangeHeader =
     (let parts = split_on CHR ''-'' (replace_first ''bytes='' [] rangeHeader);
          start = parseInt (hd parts);
          end = (if length parts > 1 \<and> parts ! 1 \<noteq> [] then parseInt (parts ! 1)
                 else Some (int videoSize - 1))
      in (start, end))"

text \<open>
  \<^verbatim>\<open>fs.createReadStream(path, {start, end})\<close> on a file with the given content, as Node
  documents it: both bounds must be integers from 0 to \<open>2\<^sup>5\<^sup>3 - 1\<close> with \<open>start \<le> end\<close>,
  otherwise the call throws (\<open>None\<close>); the stream yields the bytes from \<open>start\<close> to
  \<open>end\<close> inclusive, stopping at the end of the file.
\<close>

definition MAX_SAFE_INTEGER :: int where
  "MAX_SAFE_INTEGER = 2 ^ 53 - 1"

definition createReadStream :: "bytes \<Rightarrow> int option \<Rightarrow> int option \<Rightarrow> bytes option" where
  "createReadStream content start end =
     (case (start, end) of
        (Some s, Some e) \<Rightarrow>
          if 0 \<le> s \<and> s \<le> MAX_SAFE_INTEGER \<and> 0 \<le> e \<and> e \<le> MAX_SAFE_INTEGER \<and> s \<le> e
            then Some (take (nat (e - s + 1)) (drop (nat s) content))
          else None
      | _ \<Rightarrow> None)"

text \<open>The deferred \<^verbatim>\<open>Video.findByIdAndUpdate(id, { $inc: { viewCount: 1 } })\<close>.\<close>

fun inc_first :: "objectId \<Rightarrow> video list \<Rightarrow> video list" where
  "inc_first i [] = []"
| "inc_first i (v # vs) =
     (if v_id v = i then v \<lparr> v_viewCount := v_viewCount v + 1 \<rparr> # vs else v # inc_first i vs)"

definition count_view :: "objectId \<Rightarrow> state \<Rightarrow> state" where
  "count_view i st = st \<lparr> videos := inc_first i (videos st) \<rparr>"

text \<open>
  \<^verbatim>\<open>streamVideo\<close>.  An exception inside the \<^verbatim>\<open>try\<close> block (here: \<^verbatim>\<open>createReadStream\<close>
  throwing, before any header is written) is answered by the \<^verbatim>\<open>catch\<close> block with 500.
\<close>

definition streamVideo :: "env \<Rightarrow> state \<Rightarrow> request \<Rightarrow> response \<times> state" where
  "streamVideo e st req =
     (case Video_findById st (params_id req) of
        None \<Rightarrow> (json_error 404 ''Video not found'', st)
      | Some video \<Rightarrow>
          if (case req_organizationId req of
                None \<Rightarrow> False
              | Some organizationId \<Rightarrow> v_organizationId video \<noteq> organizationId)
            then (json_error 403 ''Access denied'', st)
          else if v_status video \<noteq> Completed
            then (json_error 400 ''Video not ready for streaming'', st)
          else
            (case files st (getLocalPath e (v_storageKey video)) of
               None \<Rightarrow> (json_error 404 ''Video file not found'', st)
             | Some content \<Rightarrow>
                 (let videoSize = v_fileSize video;
                      mimeType = getMimeType (v_format video)
                  in if headers_range req \<noteq> None \<and> headers_range req \<noteq> Some []
                     then
                       (let (start, end) = parseRange videoSize (the (headers_range req)) in
                        case createReadStream content start end of
                          None \<Rightarrow> (json_error 500 ''Streaming failed'', st)
                        | Some fileStream \<Rightarrow>
                            (let s = nat (the start); en = nat (the end);
                                 chunkSize = en - s + 1
                             in (\<lparr> res_status = 206,
                                   res_headers =
                                     [(''Content-Range'',
                                       ''bytes '' @ show_nat s @ ''-'' @ show_nat en @ ''/''
                                       @ show_nat videoSize),
                                      (''Accept-Ranges'', ''bytes''),
                                      (''Content-Length'', show_nat chunkSize),
                                      (''Content-Type'', mimeType),
                                      (''Cache-Control'', ''public, max-age=31536000'')],
                                   res_body = Stream fileStream \<rparr>,
                                 count_view (params_id req) st)))
                     else
                       (\<lparr> res_status = 200,
                          res_headers =
                            [(''Content-Length'', show_nat videoSize),
                             (''Content-Type'', mimeType),
                             (''Cache-Control'', ''public, max-age=31536000'')],
                          res_body = Stream content \<rparr>,
                        count_view (params_id req) st))))"

text \<open>The route \<^verbatim>\<open>GET /api/stream/:id\<close> (routes/stream.routes.js).\<close>

definition GET_stream :: "env \<Rightarrow> state \<Rightarrow> request \<Rightarrow> response \<times> state" where
  "GET_stream e st req = streamVideo e st (optionalAuth e st req)"

section \<open>Reading one video (controllers/video.controller.js)\<close>

text \<open>
  \<^verbatim>\<open>getVideo\<close>.  \<^verbatim>\<open>uploadedBy\<close> is populated, so \<^verbatim>\<open>video.uploadedBy._id\<close> throws when the
  uploader's row is gone; like a missing \<^verbatim>\<open>req.organizationId\<close> this ends in the \<^verbatim>\<open>catch\<close>
  block with 500.  The uploader is only looked at for a private video.
\<close>

definition getVideo :: "state \<Rightarrow> request \<Rightarrow> response" where
  "getVideo st req =
     (case Video_findById st (params_id req) of
        None \<Rightarrow> json_error 404 ''Video not found''
      | Some video \<Rightarrow>
          (case (req_organizationId req, req_userId req) of
             (Some organizationId, Some userId) \<Rightarrow>
               if v_organizationId video \<noteq> organizationId then json_error 403 ''Access denied''
               else if v_visibility video = Private then
                 (case User_findById st (v_uploadedBy video) of
                    None \<Rightarrow> json_error 500 ''Failed to fetch video''
                  | Some uploadedBy \<Rightarrow>
                      if u_id uploadedBy \<noteq> userId \<and> req_userRole req \<noteq> Some Admin
                        then json_error 403 ''Access denied to private video''
                      else \<lparr> res_status = 200, res_headers = [], res_body = JsonVideo video \<rparr>)
               else \<lparr> res_status = 200, res_headers = [], res_body = JsonVideo video \<rparr>
           | _ \<Rightarrow> json_error 500 ''Failed to fetch video''))"

text \<open>The route \<^verbatim>\<open>GET /api/videos/:id\<close>: \<^verbatim>\<open>router.use(authenticate)\<close>, then the handler.\<close>

definition GET_video :: "env \<Rightarrow> state \<Rightarrow> request \<Rightarrow> response" where
  "GET_video e st req =
     (case authenticate e st req of Inl res \<Rightarrow> res | Inr req' \<Rightarrow> getVideo st req')"

section \<open>Token refresh (auth controller)\<close>

definition summary_of :: "user \<Rightarrow> user_summary" where
  "summary_of u =
     \<lparr> s_id = u_id u, s_email = u_email u, s_name = u_name u, s_role = u_role u,
       s_organizationId = u_organizationId u \<rparr>"

text \<open>
  \<^verbatim>\<open>refreshToken\<close>: the handler of \<^verbatim>\<open>POST /api/auth/refresh\<close>.  It writes nothing to the
  store; the state is returned to make that explicit.
\<close>

definition refreshToken :: "env \<Rightarrow> state \<Rightarrow> request \<Rightarrow> response \<times> state" where
  "refreshToken e st req =
     (case cookies_refreshToken req of
        None \<Rightarrow> (json_error 401 ''No refresh token provided'', st)
      | Some token \<Rightarrow>
          if token = [] then (json_error 401 ''No refresh token provided'', st)
          else (case verify_refresh e token of
                  Decoded decoded \<Rightarrow>
                    (case User_findById st (p_userId decoded) of
                       None \<Rightarrow> (json_error 401 ''Invalid refresh token'', st)
                     | Some u \<Rightarrow>
                         if \<not> u_isActive u then (json_error 401 ''Invalid refresh token'', st)
                         else if u_refreshToken u \<noteq> Some token
                           then (json_error 401 ''Refresh token mismatch'', st)
                         else (\<lparr> res_status = 200, res_headers = [],
                                  res_body = JsonAuth (generateAccessToken e u) (summary_of u) \<rparr>,
                               st))
                | _ \<Rightarrow> (json_error 401 ''Token refresh failed'', st)))"


section \<open>Registration (auth controller)\<close>

text \<open>
  The slug of an organization name:
  \<^verbatim>\<open>name.toLowerCase().replace(/[^a-z0-9]+/g, '-').replace(/^-+|-+$/g, '')\<close>.
  \<open>squeeze\<close> turns every maximal run of other characters into one hyphen (the flag says
  that such a run is being read); \<open>strip_hyphens\<close> removes the hyphens at both ends.
\<close>

definition is_alnum :: "char \<Rightarrow> bool" where
  "is_alnum c = (c \<in> set ''abcdefghijklmnopqrstuvwxyz0123456789'')"

fun squeeze :: "bool \<Rightarrow> string \<Rightarrow> string" where
  "squeeze r [] = []"
| "squeeze r (c # cs) =
     (if is_alnum c then c # squeeze False cs
      else if r then squeeze True cs
      else CHR ''-'' # squeeze True cs)"

definition strip_hyphens :: "string \<Rightarrow> string" where
  "strip_hyphens s =
     rev (dropWhile (\<lambda>c. c = CHR ''-'') (rev (dropWhile (\<lambda>c. c = CHR ''-'') s)))"

definition slugify :: "string \<Rightarrow> string" where
  "slugify organizationName = strip_hyphens (squeeze False (toLowerCase organizationName))"

definition trim :: "string \<Rightarrow> string" where
  "trim s = rev (dropWhile is_space (rev (dropWhile is_space s)))"

text \<open>
  \<^verbatim>\<open>Organization.findOne({ slug })\<close>.  The handler only asks for slugs that are already in
  the stored form (lower case, no white space), so the comparison is the plain one.
\<close>

definition Organization_findOne :: "state \<Rightarrow> string \<Rightarrow> organization option" where
  "Organization_findOne st slug = find (\<lambda>org. o_slug org = slug) (organizations st)"

definition slugs :: "organization list \<Rightarrow> string set" where
  "slugs orgs = set (map o_slug orgs)"

definition candidate :: "string \<Rightarrow> nat \<Rightarrow> string" where
  "candidate slug counter = slug @ ''-'' @ show_nat counter"

text \<open>
  The loop
  \<^verbatim>\<open>while (await Organization.findOne({ slug: finalSlug })) { finalSlug = `${slug}-${counter}`; counter++ }\<close>
  over the organizations of the store.
\<close>

function findFreeSlug :: "organization list \<Rightarrow> string \<Rightarrow> string \<Rightarrow> nat \<Rightarrow> string" where
  "findFreeSlug orgs slug finalSlug counter =
     (if finalSlug \<in> slugs orgs then findFreeSlug orgs slug (candidate slug counter) (counter + 1)
      else finalSlug)"
  by pat_completeness auto


text \<open>
  The loop ends: the candidates \<^verbatim>\<open>slug-1\<close>, \<^verbatim>\<open>slug-2\<close>, ... are pairwise different, and only
  finitely many of them are in use.
\<close>

lemma digit_val_digit: "k < 10 \<Longrightarrow> digit_val (''0123456789'' ! k) = k"
proof -
  assume "k < 10"
  then have "k \<in> {0, 1, 2, 3, 4, 5, 6, 7, 8, 9}" by auto
  then show ?thesis by (auto simp: digit_val_def)
qed

lemma read_nat_snoc: "read_nat (ds @ [c]) = 10 * read_nat ds + digit_val c"
  by (simp add: read_nat_def)

lemma read_nat_show_nat: "read_nat (show_nat n) = n"
proof (induction n rule: show_nat.induct)
  case (1 n)
  show ?case
  proof (cases "n < 10")
    case True
    then show ?thesis
      by (simp add: show_nat.simps [of n] read_nat_def digit_val_digit)
  next
    case False
    with 1 have "read_nat (show_nat (n div 10)) = n div 10" by simp
    with False show ?thesis
      by (simp add: show_nat.simps [of n] read_nat_snoc digit_val_digit)
  qed
qed

lemma inj_show_nat: "inj show_nat"
  by (rule inj_on_inverseI [where g = read_nat]) (rule read_nat_show_nat)

lemma inj_candidate: "inj (candidate slug)"
  using inj_show_nat by (auto simp: inj_def candidate_def)

lemma finite_taken: "finite {k. candidate slug k \<in> slugs orgs}"
proof -
  have "finite (candidate slug -` slugs orgs)"
    by (rule finite_vimageI) (simp_all add: slugs_def inj_candidate)
  then show ?thesis by (simp add: vimage_def)
qed

definition taken_from :: "organization list \<Rightarrow> string \<Rightarrow> nat \<Rightarrow> nat set" where
  "taken_from orgs slug counter = {k. counter \<le> k \<and> candidate slug k \<in> slugs orgs}"

lemma finite_taken_from: "finite (taken_from orgs slug counter)"
  by (rule finite_subset [OF _ finite_taken [of slug orgs]]) (auto simp: taken_from_def)

lemma taken_from_Suc:
  "taken_from orgs slug (Suc counter) =
     taken_from orgs slug counter - {counter}"
  by (auto simp: taken_from_def)

lemma loop_decreases:
  assumes "finalSlug \<in> slugs orgs"
  shows "2 * card (taken_from orgs slug (Suc counter))
           + (if candidate slug counter \<in> slugs orgs then 1 else 0)
         < 2 * card (taken_from orgs slug counter) + (if finalSlug \<in> slugs orgs then 1 else 0)"
proof (cases "candidate slug counter \<in> slugs orgs")
  case True
  then have "counter \<in> taken_from orgs slug counter" by (simp add: taken_from_def)
  then have "card (taken_from orgs slug (Suc counter)) < card (taken_from orgs slug counter)"
    unfolding taken_from_Suc by (rule card_Diff1_less [OF finite_taken_from])
  then show ?thesis using assms by simp
next
  case False
  then have "taken_from orgs slug (Suc counter) = taken_from orgs slug counter"
    unfolding taken_from_def by (metis (mono_tags, opaque_lifting) Suc_leD Suc_leI le_neq_implies_less)
  then show ?thesis using assms False by simp
qed

termination findFreeSlug
  by (relation "measure (\<lambda>(orgs, slug, finalSlug, counter).
        2 * card (taken_from orgs slug counter) + (if finalSlug \<in> slugs orgs then 1 else 0))")
     (use loop_decreases in auto)


declare findFreeSlug.simps [simp del]

text \<open>
  \<^verbatim>\<open>Organization.create({ name, slug })\<close> with the schema's setters, validators and unique
  index: the name is trimmed and must have 2 to 100 characters; the slug is lower-cased
  and trimmed, must not be empty, must match \<^verbatim>\<open>/^[a-z0-9-]+$/\<close> and must be unused.
  \<open>None\<close>: the call throws.
\<close>

definition Organization_create ::
  "string \<Rightarrow> string \<Rightarrow> state \<Rightarrow> (organization \<times> state) option" where
  "Organization_create name slug st =
     (let name' = trim name; slug' = trim (toLowerCase slug) in
      if length name' < 2 \<or> length name' > 100 then None
      else if slug' = [] \<or> \<not> list_all (\<lambda>c. is_alnum c \<or> c = CHR ''-'') slug' then None
      else if slug' \<in> slugs (organizations st) then None
      else
        (let organization =
               \<lparr> o_id = next_id st, o_name = name', o_slug = slug', o_ownerId = None \<rparr>
         in Some (organization,
                  st \<lparr> organizations := organizations st @ [organization],
                       next_id := next_id st + 1 \<rparr>)))"

text \<open>The schema's \<^verbatim>\<open>match\<close> for e-mail addresses: \<^verbatim>\<open>/^[^\s@]+@[^\s@]+\.[^\s@]+$/\<close>.\<close>

definition email_ok :: "string \<Rightarrow> bool" where
  "email_ok s =
     (case split_on CHR ''@'' s of
        [l, d] \<Rightarrow> l \<noteq> [] \<and> \<not> list_ex is_space l \<and> \<not> list_ex is_space d
                  \<and> list_ex (\<lambda>i. d ! i = CHR ''.'') [1 ..< length d - 1]
      | _ \<Rightarrow> False)"

text \<open>
  \<^verbatim>\<open>User.findOne({ email })\<close>; the schema's setters (lower case, trim) apply to the value
  asked for as they do to the stored one.
\<close>

definition User_findOne :: "state \<Rightarrow> string \<Rightarrow> user option" where
  "User_findOne st email = find (\<lambda>u. u_email u = trim (toLowerCase email)) (users st)"

text \<open>
  \<^verbatim>\<open>User.create({ email, password, name, organizationId, role })\<close> with the schema's
  setters, validators and the unique index on the e-mail address.  The password hash is
  not modelled.
\<close>

definition User_create ::
  "string \<Rightarrow> string \<Rightarrow> string \<Rightarrow> objectId \<Rightarrow> role \<Rightarrow> state \<Rightarrow> (user \<times> state) option" where
  "User_create email password name organizationId userRole st =
     (let email' = trim (toLowerCase email); name' = trim name in
      if \<not> email_ok email' then None
      else if length password < 8 then None
      else if length name' < 2 \<or> length name' > 50 then None
      else if email' \<in> set (map u_email (users st)) then None
      else
        (let u = \<lparr> u_id = next_id st, u_email = email', u_name = name', u_role = userRole,
                   u_organizationId = organizationId, u_isActive = True,
                   u_refreshToken = None \<rparr>
         in Some (u, st \<lparr> users := users st @ [u], next_id := next_id st + 1 \<rparr>)))"

text \<open>\<^verbatim>\<open>Organization.findByIdAndUpdate(organizationId, { ownerId: user._id })\<close>.\<close>

fun set_owner :: "objectId \<Rightarrow> objectId \<Rightarrow> organization list \<Rightarrow> organization list" where
  "set_owner i owner [] = []"
| "set_owner i owner (org # orgs) =
     (if o_id org = i then org \<lparr> o_ownerId := Some owner \<rparr> # orgs
      else org # set_owner i owner orgs)"

text \<open>\<^verbatim>\<open>user.refreshToken = refreshToken; await user.save()\<close>.\<close>

fun set_refreshToken :: "objectId \<Rightarrow> string \<Rightarrow> user list \<Rightarrow> user list" where
  "set_refreshToken i token [] = []"
| "set_refreshToken i token (u # us) =
     (if u_id u = i then u \<lparr> u_refreshToken := Some token \<rparr> # us
      else u # set_refreshToken i token us)"

record register_body =
  b_email :: string
  b_password :: string
  b_name :: string
  b_organizationName :: "string option"

text \<open>\<^verbatim>\<open>if (organizationName)\<close>: the field is present and not the empty string.\<close>

definition named :: "register_body \<Rightarrow> bool" where
  "named b = (case b_organizationName b of None \<Rightarrow> False | Some n \<Rightarrow> n \<noteq> [])"

text \<open>
  The block "Handle organization" of \<^verbatim>\<open>register\<close>: the organization id and the role of
  the new user, and the store after the organization was created, if one was.
  \<open>None\<close>: \<^verbatim>\<open>Organization.create\<close> threw.
\<close>

definition handle_organization ::
  "state \<Rightarrow> register_body \<Rightarrow> (objectId \<times> role \<times> state) option" where
  "handle_organization st b =
     (if named b then
        (let organizationName = the (b_organizationName b);
             slug = slugify organizationName;
             finalSlug = findFreeSlug (organizations st) slug slug 1
         in case Organization_create organizationName finalSlug st of
              None \<Rightarrow> None
            | Some (organization, st1) \<Rightarrow> Some (o_id organization, Admin, st1))
      else
        (case Organization_findOne st ''default'' of
           Some defaultOrg \<Rightarrow> Some (o_id defaultOrg, Editor, st)
         | None \<Rightarrow>
             (case Organization_create ''Default Organization'' ''default'' st of
                None \<Rightarrow> None
              | Some (defaultOrg, st1) \<Rightarrow> Some (o_id defaultOrg, Editor, st1))))"

text \<open>
  \<^verbatim>\<open>register\<close>, on a body that passed the route's validation.  An exception anywhere is
  answered by the \<^verbatim>\<open>catch\<close> block with 500; what was written before it stays written.
\<close>

definition register :: "env \<Rightarrow> state \<Rightarrow> register_body \<Rightarrow> response \<times> state" where
  "register e st b =
     (case User_findOne st (b_email b) of
        Some existingUser \<Rightarrow> (json_error 409 ''User with this email already exists'', st)
      | None \<Rightarrow>
          (case handle_organization st b of
             None \<Rightarrow> (json_error 500 ''Registration failed'', st)
           | Some (organizationId, userRole, st1) \<Rightarrow>
               (case User_create (b_email b) (b_password b) (b_name b) organizationId userRole st1 of
                  None \<Rightarrow> (json_error 500 ''Registration failed'', st1)
                | Some (u, st2) \<Rightarrow>
                    (let st3 = (if named b
                                then st2 \<lparr> organizations :=
                                            set_owner organizationId (u_id u) (organizations st2) \<rparr>
                                else st2);
                         accessToken = generateAccessToken e u;
                         refreshToken = generateRefreshToken e u;
                         st4 = st3 \<lparr> users := set_refreshToken (u_id u) refreshToken (users st3) \<rparr>
                     in (\<lparr> res_status = 201,
                           res_headers = [(''Set-Cookie'', ''refreshToken='' @ refreshToken)],
                           res_body = JsonAuth accessToken (summary_of u) \<rparr>,
                         st4)))))"

text \<open>
  A property of every store the handlers produce from an empty one: the ids of the
  organizations were drawn from the supply of ids, so the next fresh id is above them.
\<close>

definition ids_fresh :: "state \<Rightarrow> bool" where
  "ids_fresh st = list_all (\<lambda>org. o_id org < next_id st) (organizations st)"

definition user_ids_fresh :: "state \<Rightarrow> bool" where
  "user_ids_fresh st = list_all (\<lambda>u. u_id u < next_id st) (users st)"



section \<open>Sample data\<close>

subsection \<open>Sample probes\<close>

definition probe_clean :: metadata where
  "probe_clean =
     \<lparr> duration = Some 100, width = 1920, height = 1080, codec = ''h264'', bitrate = 5000000,
       frameRate = Some 30, audioCodec = ''aac'', aspectRatio = calculateAspectRatio 1920 1080 \<rparr>"

definition probe_slow_silent :: metadata where
  "probe_slow_silent =
     \<lparr> duration = Some 100, width = 1920, height = 1080, codec = ''h264'', bitrate = 50000,
       frameRate = Some 10, audioCodec = ''none'', aspectRatio = calculateAspectRatio 1920 1080 \<rparr>"

definition probe_three_hours :: metadata where
  "probe_three_hours =
     \<lparr> duration = Some 10800, width = 1280, height = 720, codec = ''h264'', bitrate = 50000,
       frameRate = Some 30, audioCodec = ''none'', aspectRatio = calculateAspectRatio 1280 720 \<rparr>"

definition probe_empty :: metadata where
  "probe_empty =
     \<lparr> duration = None, width = 0, height = 0, codec = ''unknown'', bitrate = 0,
       frameRate = None, audioCodec = ''none'', aspectRatio = calculateAspectRatio 0 0 \<rparr>"

definition probe_of_duration :: "real \<Rightarrow> metadata" where
  "probe_of_duration d = probe_clean \<lparr> duration := Some d \<rparr>"


subsection \<open>A sample store: two organizations, four users, two videos\<close>

definition alice :: user where
  "alice = \<lparr> u_id = 10, u_email = ''alice@acme.io'', u_name = ''Alice'', u_role = Admin,
             u_organizationId = 1, u_isActive = True, u_refreshToken = Some ''refresh-alice'' \<rparr>"

definition bob :: user where
  "bob = \<lparr> u_id = 11, u_email = ''bob@acme.io'', u_name = ''Bob'', u_role = Viewer,
           u_organizationId = 1, u_isActive = True, u_refreshToken = Some ''refresh-bob'' \<rparr>"

definition carol :: user where
  "carol = \<lparr> u_id = 12, u_email = ''carol@acme.io'', u_name = ''Carol'', u_role = Viewer,
             u_organizationId = 1, u_isActive = True, u_refreshToken = None \<rparr>"

definition mallory :: user where
  "mallory = \<lparr> u_id = 20, u_email = ''mallory@globex.io'', u_name = ''Mallory'', u_role = Editor,
               u_organizationId = 2, u_isActive = True, u_refreshToken = None \<rparr>"

definition private_video :: video where
  "private_video =
     \<lparr> v_id = 100, v_title = ''board meeting'', v_organizationId = 1, v_uploadedBy = 10,
       v_visibility = Private, v_allowedUsers = [12], v_status = Completed, v_fileSize = 10,
       v_format = ''mp4'', v_storageKey = ''k100'', v_viewCount = 0 \<rparr>"

definition team_video :: video where
  "team_video =
     \<lparr> v_id = 101, v_title = ''demo'', v_organizationId = 1, v_uploadedBy = 10,
       v_visibility = Organization, v_allowedUsers = [], v_status = Completed, v_fileSize = 10,
       v_format = ''mp4'', v_storageKey = ''k101'', v_viewCount = 0 \<rparr>"

definition store0 :: state where
  "store0 =
     \<lparr> users = [alice, bob, carol, mallory],
       organizations =
         [\<lparr> o_id = 1, o_name = ''Acme'', o_slug = ''acme'', o_ownerId = Some 10 \<rparr>,
          \<lparr> o_id = 2, o_name = ''Globex'', o_slug = ''globex'', o_ownerId = Some 20 \<rparr>],
       videos = [private_video, team_video],
       files = [''uploads/k100'' \<mapsto> ''0123456789'', ''uploads/k101'' \<mapsto> ''abcdefghij''],
       next_id = 200 \<rparr>"

text \<open>
  A sample environment: the access token \<^verbatim>\<open>tok-<name>\<close> decodes to that user, the refresh
  token \<^verbatim>\<open>refresh-<name>\<close> likewise, and every other string fails verification.
\<close>

definition payload_of :: "user \<Rightarrow> payload" where
  "payload_of u =
     \<lparr> p_userId = u_id u, p_role = Some (u_role u), p_organizationId = Some (u_organizationId u) \<rparr>"

definition env0 :: env where
  "env0 =
     \<lparr> verify_access = (\<lambda>t.
         if t = ''tok-alice'' then Decoded (payload_of alice)
         else if t = ''tok-bob'' then Decoded (payload_of bob)
         else if t = ''tok-carol'' then Decoded (payload_of carol)
         else if t = ''tok-mallory'' then Decoded (payload_of mallory)
         else JsonWebTokenError),
       verify_refresh = (\<lambda>t.
         if t = ''refresh-alice'' then Decoded (payload_of alice)
         else if t = ''refresh-bob'' then Decoded (payload_of bob)
         else JsonWebTokenError),
       generateAccessToken = (\<lambda>u. ''tok-'' @ toLowerCase (u_name u)),
       generateRefreshToken = (\<lambda>u. ''refresh-'' @ toLowerCase (u_name u)),
       getLocalPath = (\<lambda>key. ''uploads/'' @ key) \<rparr>"

definition request0 :: request where
  "request0 =
     \<lparr> params_id = 0, headers_authorization = None, headers_range = None, query_token = None,
       cookies_refreshToken = None, req_userId = None, req_organizationId = None,
       req_userRole = None \<rparr>"


subsection \<open>Sample registrations\<close>



definition body_plain_1 :: register_body where
  "body_plain_1 =
     \<lparr> b_email = ''dana@example.org'', b_password = ''Abcdef12'', b_name = ''Dana'',
       b_organizationName = None \<rparr>"

definition body_plain_2 :: register_body where
  "body_plain_2 =
     \<lparr> b_email = ''erin@example.com'', b_password = ''Abcdef12'', b_name = ''Erin'',
       b_organizationName = Some [] \<rparr>"



text \<open>The sample store after the registration of Dana, who gave no organization name.\<close>

definition store_dana :: state where
  "store_dana =
     store0 \<lparr> users := users store0 @
                [\<lparr> u_id = 201, u_email = ''dana@example.org'', u_name = ''Dana'',
                   u_role = Editor, u_organizationId = 200, u_isActive = True,
                   u_refreshToken = Some ''refresh-dana'' \<rparr>],
              organizations := organizations store0 @
                [\<lparr> o_id = 200, o_name = ''Default Organization'', o_slug = ''default'',
                   o_ownerId = None \<rparr>],
              next_id := 202 \<rparr>"



text \<open>
  A registration that names its organization \<^verbatim>\<open>Default\<close>, and the store after it.
\<close>

definition body_default_named :: register_body where
  "body_default_named =
     \<lparr> b_email = ''frank@default.io'', b_password = ''Abcdef12'', b_name = ''Frank'',
       b_organizationName = Some ''Default'' \<rparr>"

definition store_frank :: state where
  "store_frank =
     store0 \<lparr> users := users store0 @
                [\<lparr> u_id = 201, u_email = ''frank@default.io'', u_name = ''Frank'',
                   u_role = Admin, u_organizationId = 200, u_isActive = True,
                   u_refreshToken = Some ''refresh-frank'' \<rparr>],
              organizations := organizations store0 @
                [\<lparr> o_id = 200, o_name = ''Default'', o_slug = ''default'',
                   o_ownerId = Some 201 \<rparr>],
              next_id := 202 \<rparr>"


section \<open>Properties of the sensitivity analyser\<close>

lemmas analyser_defs =
  analyze_def finish_def add_acc_def checkVideoIntegrity_def analyzeVideoCharacteristics_def
  analyzeAudioCharacteristics_def analyzeFileConsistency_def duration_rule_def rule_def push_def
  weight_def categoryWeights_def default_thresholds_def gt_def lt_def js_div_def
  isCommonAspectRatio_def commonRatios_def calculateAspectRatio_def isCommonAudioCodec_def
  toLowerCase_def lower_char_def sensitivityLevel_def

lemma mem_fst_rule: "x \<in> set (fst (rule c i w a)) \<longleftrightarrow> x \<in> set (fst a) \<or> (c \<and> x = i)"
  by (auto simp: rule_def push_def)

lemma finish_bands:
  "(let r = finish a; s = R_score r in
     (s > 0.7 \<longrightarrow> R_status r = Flagged \<and> sensitivityLevel r = High) \<and>
     (0.4 < s \<and> s \<le> 0.7 \<longrightarrow>
        R_status r = Flagged \<and> ''manual_review_recommended'' \<in> set (R_categories r)
        \<and> sensitivityLevel r = Medium) \<and>
     (0.3 < s \<and> s \<le> 0.4 \<longrightarrow> R_status r = Safe \<and> sensitivityLevel r = Medium) \<and>
     (s \<le> 0.3 \<longrightarrow> R_status r = Safe \<and> sensitivityLevel r = Low))"
  by (auto simp: finish_def sensitivityLevel_def Let_def min_def)

text \<open>
  C5, as the code has it.  For every result \<open>r\<close> of \<^verbatim>\<open>analyze\<close> with (clamped) score \<open>s\<close>, and
  the level the worker derives from it: \<open>s > 0.7\<close> gives status flagged and level high;
  \<open>0.4 < s \<le> 0.7\<close> gives status flagged, the category \<^verbatim>\<open>manual_review_recommended\<close> and
  level medium; \<open>s \<le> 0.4\<close> gives status safe, with level medium for \<open>0.3 < s \<le> 0.4\<close> and
  level low only for \<open>s \<le> 0.3\<close>.
\<close>

theorem C5_score_bands:
  "(let r = analyze th probe fileSize format frames; s = R_score r in
     (s > 0.7 \<longrightarrow> R_status r = Flagged \<and> sensitivityLevel r = High) \<and>
     (0.4 < s \<and> s \<le> 0.7 \<longrightarrow>
        R_status r = Flagged \<and> ''manual_review_recommended'' \<in> set (R_categories r)
        \<and> sensitivityLevel r = Medium) \<and>
     (0.3 < s \<and> s \<le> 0.4 \<longrightarrow> R_status r = Safe \<and> sensitivityLevel r = Medium) \<and>
     (s \<le> 0.3 \<longrightarrow> R_status r = Safe \<and> sensitivityLevel r = Low))"
proof (cases probe)
  case (Inl message)
  then show ?thesis by (simp add: analyze_def sensitivityLevel_def)
next
  case (Inr m)
  then obtain a where "analyze th probe fileSize format frames = finish a"
    by (simp add: analyze_def Let_def)
  then show ?thesis using finish_bands [of a] by (simp add: Let_def)
qed

text \<open>The four bands are inhabited: scores 0.95, 0.65, 0.35 and 0 on the sample probes.\<close>

theorem C5_score_bands_witness:
  "(let r = analyze default_thresholds (Inr probe_empty) 1000 ''mp4'' None in
      R_score r > 0.7 \<and> R_status r = Flagged \<and> sensitivityLevel r = High) \<and>
   (let r = analyze default_thresholds (Inr probe_three_hours) 67500000 ''mp4'' None in
      0.4 < R_score r \<and> R_score r \<le> 0.7 \<and> R_status r = Flagged
      \<and> ''manual_review_recommended'' \<in> set (R_categories r) \<and> sensitivityLevel r = Medium) \<and>
   (let r = analyze default_thresholds (Inr probe_slow_silent) 20000000 ''mp4'' None in
      0.3 < R_score r \<and> R_score r \<le> 0.4 \<and> R_status r = Safe \<and> sensitivityLevel r = Medium) \<and>
   (let r = analyze default_thresholds (Inr probe_clean) 62500000 ''mp4'' None in
      R_score r \<le> 0.3 \<and> R_status r = Safe \<and> sensitivityLevel r = Low)"
proof -
  have s1: "R_score (analyze default_thresholds (Inr probe_empty) 1000 ''mp4'' None) = 0.95"
    by (simp add: analyser_defs probe_empty_def)
  have s2: "R_score (analyze default_thresholds (Inr probe_three_hours) 67500000 ''mp4'' None) = 0.65"
    by (simp add: analyser_defs probe_three_hours_def)
  have s3: "R_score (analyze default_thresholds (Inr probe_slow_silent) 20000000 ''mp4'' None) = 0.35"
    by (simp add: analyser_defs probe_slow_silent_def)
  have s4: "R_score (analyze default_thresholds (Inr probe_clean) 62500000 ''mp4'' None) = 0"
    by (simp add: analyser_defs probe_clean_def)
  show ?thesis
    using C5_score_bands [of default_thresholds "Inr probe_empty" 1000 "''mp4''" None]
      C5_score_bands [of default_thresholds "Inr probe_three_hours" 67500000 "''mp4''" None]
      C5_score_bands [of default_thresholds "Inr probe_slow_silent" 20000000 "''mp4''" None]
      C5_score_bands [of default_thresholds "Inr probe_clean" 62500000 "''mp4''" None]
    by (simp add: Let_def s1 s2 s3 s4)
qed

text \<open>
  C5 as stated fails: a result with score 0.35 (at most 0.4) has status safe but level
  medium, not low.
\<close>

theorem C5_low_band_counterexample:
  "R_score (analyze default_thresholds (Inr probe_slow_silent) 20000000 ''mp4'' None) \<le> 0.4
   \<and> R_status (analyze default_thresholds (Inr probe_slow_silent) 20000000 ''mp4'' None) = Safe
   \<and> sensitivityLevel (analyze default_thresholds (Inr probe_slow_silent) 20000000 ''mp4'' None)
       \<noteq> Low"
  by (simp add: analyser_defs probe_slow_silent_def)

text \<open>
  C8, as the code has it, with the default thresholds.  The duration rule appends exactly
  one category: \<^verbatim>\<open>extremely_long_duration\<close> with weight 0.15 for a duration above 10800 s,
  else \<^verbatim>\<open>long_duration\<close> with weight 0.10 for a duration above 7200 s, else nothing.  So in
  the issue list of \<^verbatim>\<open>analyzeVideoCharacteristics\<close>, \<^verbatim>\<open>extremely_long_duration\<close> is present
  iff the duration exceeds 10800 s, and \<^verbatim>\<open>long_duration\<close> iff it exceeds 7200 s and does
  not exceed 10800 s: the two are never present together.
\<close>

theorem C8_duration_rule:
  "duration_rule default_thresholds m a =
     (if gt (duration m) 10800 then (fst a @ [''extremely_long_duration''], snd a + 0.15)
      else if gt (duration m) 7200 then (fst a @ [''long_duration''], snd a + 0.1)
      else a)
   \<and> (''extremely_long_duration'' \<in> set (fst (analyzeVideoCharacteristics default_thresholds m))
        \<longleftrightarrow> gt (duration m) 10800)
   \<and> (''long_duration'' \<in> set (fst (analyzeVideoCharacteristics default_thresholds m))
        \<longleftrightarrow> gt (duration m) 7200 \<and> \<not> gt (duration m) 10800)"
proof -
  have w: "weight ''long_duration'' = 0.1"
    by (simp add: weight_def categoryWeights_def)
  have dr: "duration_rule default_thresholds m b =
     (if gt (duration m) 10800 then (fst b @ [''extremely_long_duration''], snd b + 0.15)
      else if gt (duration m) 7200 then (fst b @ [''long_duration''], snd b + 0.1)
      else b)" for b
    by (simp add: duration_rule_def push_def default_thresholds_def w)
  have e1: "''extremely_long_duration'' \<in> set (fst (analyzeVideoCharacteristics default_thresholds m))
      \<longleftrightarrow> ''extremely_long_duration'' \<in> set (fst (duration_rule default_thresholds m ([], 0)))"
    by (simp add: analyzeVideoCharacteristics_def mem_fst_rule)
  have e2: "''long_duration'' \<in> set (fst (analyzeVideoCharacteristics default_thresholds m))
      \<longleftrightarrow> ''long_duration'' \<in> set (fst (duration_rule default_thresholds m ([], 0)))"
    by (simp add: analyzeVideoCharacteristics_def mem_fst_rule)
  show ?thesis
    by (simp add: e1 e2 dr)
qed

text \<open>Durations 7199, 7201 and 10801 s on an otherwise unremarkable probe.\<close>

theorem C8_duration_rule_witness:
  "analyzeVideoCharacteristics default_thresholds (probe_of_duration 7199) = ([], 0)
   \<and> analyzeVideoCharacteristics default_thresholds (probe_of_duration 7201)
       = ([''long_duration''], 0.1)
   \<and> analyzeVideoCharacteristics default_thresholds (probe_of_duration 10801)
       = ([''extremely_long_duration''], 0.15)
   \<and> gt (duration (probe_of_duration 10801)) 10800
   \<and> ''long_duration'' \<notin> set (fst (analyzeVideoCharacteristics default_thresholds
         (probe_of_duration 10801)))"
  using C8_duration_rule [of "probe_of_duration 10801" "([], 0)"]
  by (simp add: analyser_defs probe_of_duration_def probe_clean_def)

text \<open>
  C8 as stated fails: at 10801 s the category \<^verbatim>\<open>long_duration\<close> is absent, only
  \<^verbatim>\<open>extremely_long_duration\<close> is reported.
\<close>

theorem C8_both_categories_counterexample:
  "gt (duration (probe_of_duration 10801)) 10800
   \<and> \<not> ({''long_duration'', ''extremely_long_duration''}
        \<subseteq> set (fst (analyzeVideoCharacteristics default_thresholds (probe_of_duration 10801))))"
  by (simp add: analyser_defs probe_of_duration_def probe_clean_def)


section \<open>Properties of the streaming and video handlers\<close>

lemmas sample_defs =
  store0_def env0_def request0_def alice_def bob_def carol_def mallory_def
  private_video_def team_video_def payload_of_def

lemmas handler_defs =
  GET_stream_def streamVideo_def optionalAuth_def authenticate_def GET_video_def getVideo_def
  attach_def startsWith_def json_error_def header_def User_findById_def Video_findById_def
  count_view_def getMimeType_def toLowerCase_def lower_char_def createReadStream_def
  MAX_SAFE_INTEGER_def

lemmas parse_defs =
  parseRange_def parseInt_def is_space_def is_digit_def read_nat_def digit_val_def

lemma streamVideo_never_416: "res_status (fst (streamVideo e st req)) \<noteq> 416"
  by (simp add: streamVideo_def json_error_def Let_def split: option.splits prod.splits)

lemma createReadStream_valid:
  assumes "s \<le> en" and "int en \<le> MAX_SAFE_INTEGER"
  shows "createReadStream content (Some (int s)) (Some (int en))
           = Some (take (en - s + 1) (drop s content))"
  using assms by (simp add: createReadStream_def nat_diff_distrib' nat_add_distrib)

subsection \<open>The header \<^verbatim>\<open>bytes=s-e\<close> parses to the bounds \<open>s\<close> and \<open>e\<close>\<close>

lemma is_digit_digit: "k < 10 \<Longrightarrow> is_digit (''0123456789'' ! k)"
proof -
  assume "k < 10"
  then have "k \<in> {0, 1, 2, 3, 4, 5, 6, 7, 8, 9}" by auto
  then show ?thesis by (auto simp: is_digit_def)
qed

lemma digits_show_nat: "list_all is_digit (show_nat n)"
proof (induction n rule: show_nat.induct)
  case (1 n)
  then show ?case
    by (cases "n < 10") (simp_all add: show_nat.simps [of n] is_digit_digit)
qed

lemma show_nat_not_Nil: "show_nat n \<noteq> []"
  by (cases "n < 10") (simp_all add: show_nat.simps [of n])

lemma is_digit_plain: "is_digit c \<Longrightarrow> \<not> is_space c \<and> c \<noteq> CHR ''-'' \<and> c \<noteq> CHR ''+''"
  by (auto simp: is_digit_def is_space_def)

lemma parseInt_digits:
  assumes "ds \<noteq> []" and "list_all is_digit ds"
  shows "parseInt ds = Some (int (read_nat ds))"
proof -
  from assms obtain c cs where ds: "ds = c # cs" and c: "is_digit c"
    by (cases ds) auto
  have "takeWhile is_digit ds = ds"
    using assms(2) by (simp add: list_all_iff)
  then show ?thesis
    using is_digit_plain [OF c] ds by (simp add: parseInt_def)
qed

lemma parseInt_show_nat: "parseInt (show_nat n) = Some (int n)"
  by (simp add: parseInt_digits show_nat_not_Nil digits_show_nat read_nat_show_nat)

lemma replace_first_prefix: "pat \<noteq> [] \<Longrightarrow> replace_first pat rep (pat @ s) = rep @ s"
  by (cases pat) simp_all

lemma split_on_no_sep: "d \<notin> set s \<Longrightarrow> split_on d s = [s]"
  by (induction s) auto

lemma split_on_sep: "d \<notin> set a \<Longrightarrow> split_on d (a @ d # b) = a # split_on d b"
  by (induction a) auto

lemma no_hyphen_show_nat: "CHR ''-'' \<notin> set (show_nat n)"
  using digits_show_nat [of n] is_digit_plain by (auto simp: list_all_iff)

lemma parseRange_bytes:
  "parseRange videoSize (''bytes='' @ show_nat s @ ''-'' @ show_nat en)
     = (Some (int s), Some (int en))"
proof -
  have "replace_first ''bytes='' [] (''bytes='' @ show_nat s @ ''-'' @ show_nat en)
      = show_nat s @ CHR ''-'' # show_nat en"
    using replace_first_prefix [of "''bytes=''" "[]" "show_nat s @ ''-'' @ show_nat en"]
    by simp
  moreover have "split_on CHR ''-'' (show_nat s @ CHR ''-'' # show_nat en)
      = [show_nat s, show_nat en]"
    by (simp add: split_on_sep split_on_no_sep no_hyphen_show_nat)
  ultimately show ?thesis
    by (simp add: parseRange_def parseInt_show_nat show_nat_not_Nil del: replace_first.simps)
qed

lemma parseRange_open:
  "parseRange videoSize (''bytes='' @ show_nat s @ ''-'')
     = (Some (int s), Some (int videoSize - 1))"
proof -
  have "replace_first ''bytes='' [] (''bytes='' @ show_nat s @ ''-'')
      = show_nat s @ CHR ''-'' # []"
    using replace_first_prefix [of "''bytes=''" "[]" "show_nat s @ ''-''"]
    by simp
  moreover have "split_on CHR ''-'' (show_nat s @ CHR ''-'' # [])
      = [show_nat s, []]"
    by (simp add: split_on_sep no_hyphen_show_nat)
  ultimately show ?thesis
    by (simp add: parseRange_def parseInt_show_nat del: replace_first.simps)
qed

text \<open>
  What the handler answers when the header parses to bounds \<open>s \<le> en\<close> below the file
  size, whatever the text of the header.
\<close>

lemma partial_content_parsed:
  assumes "Video_findById st (params_id req) = Some video"
    and "req_organizationId req = None \<or> req_organizationId req = Some (v_organizationId video)"
    and "v_status video = Completed"
    and "files st (getLocalPath e (v_storageKey video)) = Some content"
    and "length content = v_fileSize video"
    and "int (v_fileSize video) \<le> MAX_SAFE_INTEGER"
    and "headers_range req = Some r" and "r \<noteq> []"
    and "parseRange (v_fileSize video) r = (Some (int s), Some (int en))"
    and "s \<le> en" and "en < v_fileSize video"
  shows "let res = fst (streamVideo e st req); chunk = take (en - s + 1) (drop s content) in
           res_status res = 206
         \<and> header res ''Content-Length'' = Some (show_nat (en - s + 1))
         \<and> header res ''Content-Range''
             = Some (''bytes '' @ show_nat s @ ''-'' @ show_nat en @ ''/''
                     @ show_nat (v_fileSize video))
         \<and> res_body res = Stream chunk
         \<and> length chunk = en - s + 1
         \<and> (\<forall>i < en - s + 1. chunk ! i = content ! (s + i))"
proof -
  have crs: "createReadStream content (Some (int s)) (Some (int en))
      = Some (take (en - s + 1) (drop s content))"
    using assms(6,10,11) by (intro createReadStream_valid) simp_all
  have "fst (streamVideo e st req) =
      \<lparr> res_status = 206,
        res_headers =
          [(''Content-Range'',
            ''bytes '' @ show_nat s @ ''-'' @ show_nat en @ ''/'' @ show_nat (v_fileSize video)),
           (''Accept-Ranges'', ''bytes''),
           (''Content-Length'', show_nat (en - s + 1)),
           (''Content-Type'', getMimeType (v_format video)),
           (''Cache-Control'', ''public, max-age=31536000'')],
        res_body = Stream (take (en - s + 1) (drop s content)) \<rparr>"
    using assms(1-4,7-9) crs by (auto simp add: streamVideo_def Let_def)
  moreover have "length (take (en - s + 1) (drop s content)) = en - s + 1"
    using assms(5,10,11) by simp
  moreover have "\<forall>i < en - s + 1. take (en - s + 1) (drop s content) ! i = content ! (s + i)"
    using assms(5,10,11) by simp
  ultimately show ?thesis by (simp add: Let_def header_def)
qed

text \<open>
  C6.  On a completed video whose file holds \<open>v_fileSize\<close> bytes, a request that passes the
  tenant check and carries the header \<^verbatim>\<open>Range: bytes=s-en\<close> (the decimal digits of \<open>s\<close>, a
  hyphen, the decimal digits of \<open>en\<close>) with \<open>s \<le> en < v_fileSize\<close> is answered with 206,
  \<^verbatim>\<open>Content-Length\<close> \<open>en - s + 1\<close>, \<^verbatim>\<open>Content-Range\<close> \<^verbatim>\<open>bytes s-en/<file size>\<close>, and a body of
  exactly the \<open>en - s + 1\<close> bytes of the file at positions \<open>s\<close> to \<open>en\<close>.
\<close>

theorem C6_partial_content:
  assumes "Video_findById st (params_id req) = Some video"
    and "req_organizationId req = None \<or> req_organizationId req = Some (v_organizationId video)"
    and "v_status video = Completed"
    and "files st (getLocalPath e (v_storageKey video)) = Some content"
    and "length content = v_fileSize video"
    and "int (v_fileSize video) \<le> MAX_SAFE_INTEGER"
    and "headers_range req = Some (''bytes='' @ show_nat s @ ''-'' @ show_nat en)"
    and "s \<le> en" and "en < v_fileSize video"
  shows "let res = fst (streamVideo e st req); chunk = take (en - s + 1) (drop s content) in
           res_status res = 206
         \<and> header res ''Content-Length'' = Some (show_nat (en - s + 1))
         \<and> header res ''Content-Range''
             = Some (''bytes '' @ show_nat s @ ''-'' @ show_nat en @ ''/''
                     @ show_nat (v_fileSize video))
         \<and> res_body res = Stream chunk
         \<and> length chunk = en - s + 1
         \<and> (\<forall>i < en - s + 1. chunk ! i = content ! (s + i))"
proof -
  have "''bytes='' @ show_nat s @ ''-'' @ show_nat en \<noteq> []"
    by simp
  then show ?thesis
    using assms parseRange_bytes [of "v_fileSize video" s en]
    by (intro partial_content_parsed) simp_all
qed

text \<open>
  The same holds for the open form \<^verbatim>\<open>Range: bytes=s-\<close>, whose end defaults to the last byte.
\<close>

lemma partial_content_open_end:
  assumes "Video_findById st (params_id req) = Some video"
    and "req_organizationId req = None \<or> req_organizationId req = Some (v_organizationId video)"
    and "v_status video = Completed"
    and "files st (getLocalPath e (v_storageKey video)) = Some content"
    and "length content = v_fileSize video"
    and "int (v_fileSize video) \<le> MAX_SAFE_INTEGER"
    and "headers_range req = Some (''bytes='' @ show_nat s @ ''-'')"
    and "s < v_fileSize video"
  shows "let res = fst (streamVideo e st req) in
           res_status res = 206
         \<and> header res ''Content-Length'' = Some (show_nat (v_fileSize video - s))
         \<and> header res ''Content-Range''
             = Some (''bytes '' @ show_nat s @ ''-'' @ show_nat (v_fileSize video - 1) @ ''/''
                     @ show_nat (v_fileSize video))
         \<and> res_body res = Stream (drop s content)"
proof -
  have "int (v_fileSize video - 1) = int (v_fileSize video) - 1"
    using assms(8) by simp
  then have p: "parseRange (v_fileSize video) (''bytes='' @ show_nat s @ ''-'')
      = (Some (int s), Some (int (v_fileSize video - 1)))"
    by (simp only: parseRange_open)
  have n: "''bytes='' @ show_nat s @ ''-'' \<noteq> []"
    by simp
  have "v_fileSize video - 1 - s + 1 = v_fileSize video - s"
    using assms(8) by simp
  then show ?thesis
    using partial_content_parsed [OF assms(1-7) n p] assms(5,8) by (simp add: Let_def)
qed

text \<open>\<^verbatim>\<open>Range: bytes=2-5\<close> on the ten-byte file of the sample store: four bytes, \<^verbatim>\<open>cdef\<close>.\<close>

theorem C6_partial_content_witness:
  "Video_findById store0 101 = Some team_video
   \<and> v_status team_video = Completed
   \<and> files store0 (getLocalPath env0 (v_storageKey team_video)) = Some ''abcdefghij''
   \<and> ''bytes='' @ show_nat 2 @ ''-'' @ show_nat 5 = ''bytes=2-5''
   \<and> (let res = fst (streamVideo env0 store0
                      (request0 \<lparr> params_id := 101, headers_range := Some ''bytes=2-5'' \<rparr>)) in
        res_status res = 206
        \<and> header res ''Content-Length'' = Some ''4''
        \<and> header res ''Content-Range'' = Some ''bytes 2-5/10''
        \<and> res_body res = Stream ''cdef'')"
proof -
  have f: "Video_findById store0 101 = Some team_video"
    by (simp add: Video_findById_def store0_def team_video_def private_video_def)
  have c: "files store0 (getLocalPath env0 (v_storageKey team_video)) = Some ''abcdefghij''"
    by (simp add: store0_def env0_def team_video_def)
  have n: "show_nat 4 = ''4''" "show_nat 2 = ''2''" "show_nat 5 = ''5''" "show_nat 10 = ''10''"
    by (simp_all add: show_nat.simps)
  have h: "headers_range (request0 \<lparr> params_id := 101, headers_range := Some ''bytes=2-5'' \<rparr>)
      = Some (''bytes='' @ show_nat 2 @ ''-'' @ show_nat 5)"
    by (simp add: n)
  have "let res = fst (streamVideo env0 store0
                    (request0 \<lparr> params_id := 101, headers_range := Some ''bytes=2-5'' \<rparr>));
            chunk = take (5 - 2 + 1) (drop 2 ''abcdefghij'') in
           res_status res = 206
         \<and> header res ''Content-Length'' = Some (show_nat (5 - 2 + 1))
         \<and> header res ''Content-Range''
             = Some (''bytes '' @ show_nat 2 @ ''-'' @ show_nat 5 @ ''/''
                     @ show_nat (v_fileSize team_video))
         \<and> res_body res = Stream chunk
         \<and> length chunk = 5 - 2 + 1
         \<and> (\<forall>i < 5 - 2 + 1. chunk ! i = ''abcdefghij'' ! (2 + i))"
    by (rule C6_partial_content [where video = team_video and e = env0, OF _ _ _ c _ _ h])
       (simp_all add: f request0_def team_video_def MAX_SAFE_INTEGER_def)
  then show ?thesis
    using f c by (simp add: Let_def n team_video_def)
qed

text \<open>
  C2: what the code does on a range that cannot be satisfied.  On the ten-byte sample file,
  \<^verbatim>\<open>Range: bytes=10-\<close> (start = file size) makes \<^verbatim>\<open>createReadStream\<close> throw, and the answer
  is 500; \<^verbatim>\<open>Range: bytes=0-99\<close> (end beyond the file) is answered with 206,
  \<^verbatim>\<open>Content-Range: bytes 0-99/10\<close> and \<^verbatim>\<open>Content-Length: 100\<close> over a ten-byte body.  Neither is
  416 with \<^verbatim>\<open>Content-Range: bytes */10\<close>.
\<close>

theorem C2_unsatisfiable_range_evaluated:
  "fst (GET_stream env0 store0
         (request0 \<lparr> params_id := 101, headers_authorization := Some ''Bearer tok-bob'',
                     headers_range := Some ''bytes=10-'' \<rparr>))
     = \<lparr> res_status = 500, res_headers = [], res_body = JsonError ''Streaming failed'' \<rparr>
   \<and> fst (GET_stream env0 store0
         (request0 \<lparr> params_id := 101, headers_authorization := Some ''Bearer tok-bob'',
                     headers_range := Some ''bytes=0-99'' \<rparr>))
     = \<lparr> res_status = 206,
         res_headers =
           [(''Content-Range'', ''bytes 0-99/10''), (''Accept-Ranges'', ''bytes''),
            (''Content-Length'', ''100''), (''Content-Type'', ''video/mp4''),
            (''Cache-Control'', ''public, max-age=31536000'')],
         res_body = Stream ''abcdefghij'' \<rparr>"
  by (simp add: handler_defs sample_defs parse_defs show_nat.simps)

text \<open>
  C1: what the code does without an \<^verbatim>\<open>Authorization\<close> header.  Mallory belongs to another
  organization than the two sample videos (one private, one of visibility organization).
  With her token in the \<^verbatim>\<open>token\<close> query parameter, as the frontend sends it, or with no
  token at all, the request is treated as anonymous and the full file is served with
  200; only with the same token in the \<^verbatim>\<open>Authorization\<close> header is she refused.
\<close>

theorem C1_anonymous_stream_evaluated:
  "fst (GET_stream env0 store0
         (request0 \<lparr> params_id := 100, query_token := Some ''tok-mallory'' \<rparr>))
     = \<lparr> res_status = 200,
         res_headers = [(''Content-Length'', ''10''), (''Content-Type'', ''video/mp4''),
                        (''Cache-Control'', ''public, max-age=31536000'')],
         res_body = Stream ''0123456789'' \<rparr>
   \<and> fst (GET_stream env0 store0 (request0 \<lparr> params_id := 101 \<rparr>))
     = \<lparr> res_status = 200,
         res_headers = [(''Content-Length'', ''10''), (''Content-Type'', ''video/mp4''),
                        (''Cache-Control'', ''public, max-age=31536000'')],
         res_body = Stream ''abcdefghij'' \<rparr>
   \<and> fst (GET_stream env0 store0
         (request0 \<lparr> params_id := 100, headers_authorization := Some ''Bearer tok-mallory'' \<rparr>))
     = \<lparr> res_status = 403, res_headers = [], res_body = JsonError ''Access denied'' \<rparr>"
  by (simp add: handler_defs sample_defs show_nat.simps)

lemma unknown_id_404:
  assumes "Video_findById st (params_id req) = None"
  shows "res_status (fst (GET_stream e st req)) = 404"
    and "authenticate e st req = Inr req' \<Longrightarrow> res_status (GET_video e st req) = 404"
proof -
  have "params_id (optionalAuth e st req) = params_id req"
    by (simp add: optionalAuth_def attach_def split: option.splits verified.splits)
  then show "res_status (fst (GET_stream e st req)) = 404"
    using assms by (simp add: GET_stream_def streamVideo_def json_error_def)
  assume a: "authenticate e st req = Inr req'"
  then have "params_id req' = params_id req"
    by (auto simp: authenticate_def attach_def split: option.splits verified.splits if_splits)
  then show "res_status (GET_video e st req) = 404"
    using assms a by (simp add: GET_video_def getVideo_def json_error_def)
qed

text \<open>
  C3, as the code has it.  A request that carries, in the \<^verbatim>\<open>Authorization\<close> header, the
  valid access token of an active user, and names a video that exists in another
  organization than the user's, is answered with 403 \<^verbatim>\<open>Access denied\<close> by both
  \<^verbatim>\<open>GET /api/videos/:id\<close> and \<^verbatim>\<open>GET /api/stream/:id\<close> (an unknown id gives 404, see
  \<open>unknown_id_404\<close>).
\<close>

theorem C3_cross_tenant_403:
  assumes "Video_findById st (params_id req) = Some video"
    and "headers_authorization req = Some (''Bearer '' @ token)"
    and "verify_access e token = Decoded decoded"
    and "User_findById st (p_userId decoded) = Some u"
    and "u_isActive u"
    and "u_organizationId u \<noteq> v_organizationId video"
  shows "GET_video e st req = json_error 403 ''Access denied''
       \<and> GET_stream e st req = (json_error 403 ''Access denied'', st)"
proof -
  have a: "authenticate e st req = Inr (attach u req)"
    using assms(2-5) by (simp add: authenticate_def startsWith_def)
  have b: "optionalAuth e st req = attach u req"
    using assms(2-5) by (simp add: optionalAuth_def startsWith_def)
  have "getVideo st (attach u req) = json_error 403 ''Access denied''"
    using assms(1,6) by (auto simp: getVideo_def attach_def)
  moreover have "streamVideo e st (attach u req) = (json_error 403 ''Access denied'', st)"
    using assms(1,6) by (auto simp: streamVideo_def attach_def)
  ultimately show ?thesis
    by (simp add: GET_video_def GET_stream_def a b)
qed

text \<open>Mallory, of the second organization, asks for a video of the first.\<close>

theorem C3_cross_tenant_403_witness:
  "Video_findById store0 101 = Some team_video
   \<and> verify_access env0 ''tok-mallory'' = Decoded (payload_of mallory)
   \<and> User_findById store0 (p_userId (payload_of mallory)) = Some mallory
   \<and> u_isActive mallory
   \<and> u_organizationId mallory \<noteq> v_organizationId team_video
   \<and> GET_video env0 store0
        (request0 \<lparr> params_id := 101, headers_authorization := Some ''Bearer tok-mallory'' \<rparr>)
       = json_error 403 ''Access denied''
   \<and> GET_stream env0 store0
        (request0 \<lparr> params_id := 101, headers_authorization := Some ''Bearer tok-mallory'' \<rparr>)
       = (json_error 403 ''Access denied'', store0)"
proof -
  have h: "Video_findById store0 101 = Some team_video"
    "verify_access env0 ''tok-mallory'' = Decoded (payload_of mallory)"
    "User_findById store0 (p_userId (payload_of mallory)) = Some mallory"
    "u_isActive mallory"
    "u_organizationId mallory \<noteq> v_organizationId team_video"
    by (simp_all add: Video_findById_def User_findById_def sample_defs)
  show ?thesis
    using C3_cross_tenant_403 [of store0
        "request0 \<lparr> params_id := 101, headers_authorization := Some ''Bearer tok-mallory'' \<rparr>"
        team_video "''tok-mallory''" env0 "payload_of mallory" mallory] h
    by (simp add: request0_def)
qed

text \<open>C3 as stated fails: the cross-tenant read is answered with 403, not with 404.\<close>

theorem C3_status_404_counterexample:
  "res_status (GET_video env0 store0
      (request0 \<lparr> params_id := 101, headers_authorization := Some ''Bearer tok-mallory'' \<rparr>))
     \<noteq> 404
   \<and> res_status (fst (GET_stream env0 store0
      (request0 \<lparr> params_id := 101, headers_authorization := Some ''Bearer tok-mallory'' \<rparr>)))
     \<noteq> 404"
  by (simp add: handler_defs sample_defs)

text \<open>
  C9: what the code does on the private sample video (uploaded by Alice, with Carol in
  \<^verbatim>\<open>allowedUsers\<close>).  Bob is a viewer of the same organization, neither uploader nor admin
  nor allowed: \<^verbatim>\<open>GET /api/videos/:id\<close> refuses him with 403, yet \<^verbatim>\<open>GET /api/stream/:id\<close>
  serves him the file.  Carol is in \<^verbatim>\<open>allowedUsers\<close>: \<^verbatim>\<open>GET /api/videos/:id\<close> refuses her
  with 403 all the same.
\<close>

theorem C9_private_video_evaluated:
  "GET_video env0 store0
      (request0 \<lparr> params_id := 100, headers_authorization := Some ''Bearer tok-bob'' \<rparr>)
     = json_error 403 ''Access denied to private video''
   \<and> fst (GET_stream env0 store0
      (request0 \<lparr> params_id := 100, headers_authorization := Some ''Bearer tok-bob'' \<rparr>))
     = \<lparr> res_status = 200,
         res_headers = [(''Content-Length'', ''10''), (''Content-Type'', ''video/mp4''),
                        (''Cache-Control'', ''public, max-age=31536000'')],
         res_body = Stream ''0123456789'' \<rparr>
   \<and> u_id carol \<in> set (v_allowedUsers private_video)
   \<and> GET_video env0 store0
      (request0 \<lparr> params_id := 100, headers_authorization := Some ''Bearer tok-carol'' \<rparr>)
     = json_error 403 ''Access denied to private video''"
  by (simp add: handler_defs sample_defs show_nat.simps)

section \<open>Properties of the token refresh\<close>

text \<open>
  C4, as the code has it.  A successful refresh leaves the store as it was: the stored
  refresh token is still the presented one.  So a second refresh that presents the same
  token against the resulting state, at any time at which the token still verifies,
  succeeds again.
\<close>

theorem C4_refresh_repeatable:
  assumes "refreshToken e st req = (res, st')"
    and "res_status res = 200"
    and "cookies_refreshToken req = Some t"
    and "verify_refresh e' t = verify_refresh e t"
  shows "st' = st
       \<and> (\<exists>decoded u. verify_refresh e t = Decoded decoded
            \<and> User_findById st' (p_userId decoded) = Some u \<and> u_refreshToken u = Some t)
       \<and> res_status (fst (refreshToken e' st' req)) = 200
       \<and> snd (refreshToken e' st' req) = st'"
  using assms
  by (auto simp: refreshToken_def json_error_def split: option.splits verified.splits if_splits)

text \<open>Bob refreshes twice with the token stored at his login.\<close>

theorem C4_refresh_repeatable_witness:
  "refreshToken env0 store0 (request0 \<lparr> cookies_refreshToken := Some ''refresh-bob'' \<rparr>)
     = (\<lparr> res_status = 200, res_headers = [],
          res_body = JsonAuth ''tok-bob'' (summary_of bob) \<rparr>, store0)
   \<and> res_status (fst (refreshToken env0 store0
        (request0 \<lparr> cookies_refreshToken := Some ''refresh-bob'' \<rparr>))) = 200
   \<and> snd (refreshToken env0 store0
        (request0 \<lparr> cookies_refreshToken := Some ''refresh-bob'' \<rparr>)) = store0"
proof -
  have first: "refreshToken env0 store0 (request0 \<lparr> cookies_refreshToken := Some ''refresh-bob'' \<rparr>)
     = (\<lparr> res_status = 200, res_headers = [],
          res_body = JsonAuth ''tok-bob'' (summary_of bob) \<rparr>, store0)"
    by (simp add: refreshToken_def User_findById_def sample_defs summary_of_def
        toLowerCase_def lower_char_def)
  show ?thesis
    using C4_refresh_repeatable [OF first, of "''refresh-bob''" env0] first
    by (simp add: request0_def)
qed

text \<open>
  C4 as stated fails: after a successful refresh, the replay of the same token against
  the resulting state is answered with 200, not 401.
\<close>

theorem C4_replay_counterexample:
  "res_status (fst (refreshToken env0 store0
      (request0 \<lparr> cookies_refreshToken := Some ''refresh-bob'' \<rparr>))) = 200
   \<and> res_status (fst (refreshToken env0
        (snd (refreshToken env0 store0
                (request0 \<lparr> cookies_refreshToken := Some ''refresh-bob'' \<rparr>)))
        (request0 \<lparr> cookies_refreshToken := Some ''refresh-bob'' \<rparr>))) \<noteq> 401"
  by (simp add: refreshToken_def User_findById_def sample_defs summary_of_def)


section \<open>Properties of the slug loop\<close>

lemma findFreeSlug_unused:
  "finalSlug \<notin> slugs orgs \<Longrightarrow> findFreeSlug orgs slug finalSlug counter = finalSlug"
  by (simp add: findFreeSlug.simps)

text \<open>
  When the slug tried first is in use, the loop returns the candidate \<^verbatim>\<open>slug-k\<close> with the
  least \<open>k\<close> from the counter on that is not in use.
\<close>

lemma findFreeSlug_least:
  assumes "finalSlug \<in> slugs orgs"
  shows "\<exists>k. counter \<le> k
           \<and> findFreeSlug orgs slug finalSlug counter = candidate slug k
           \<and> candidate slug k \<notin> slugs orgs
           \<and> (\<forall>j. counter \<le> j \<and> j < k \<longrightarrow> candidate slug j \<in> slugs orgs)"
  using assms
proof (induction orgs slug finalSlug counter rule: findFreeSlug.induct)
  case (1 orgs slug finalSlug counter)
  have step: "findFreeSlug orgs slug finalSlug counter
      = findFreeSlug orgs slug (candidate slug counter) (counter + 1)"
    using "1.prems" by (subst findFreeSlug.simps) simp
  show ?case
  proof (cases "candidate slug counter \<in> slugs orgs")
    case False
    then have "findFreeSlug orgs slug finalSlug counter = candidate slug counter"
      using step by (simp add: findFreeSlug_unused)
    with False show ?thesis
      by (intro exI [of _ counter]) auto
  next
    case True
    from "1.IH" [OF "1.prems" True] obtain k where
      k: "counter + 1 \<le> k"
      and r: "findFreeSlug orgs slug (candidate slug counter) (counter + 1) = candidate slug k"
      and u: "candidate slug k \<notin> slugs orgs"
      and a: "\<forall>j. counter + 1 \<le> j \<and> j < k \<longrightarrow> candidate slug j \<in> slugs orgs"
      by blast
    have "\<forall>j. counter \<le> j \<and> j < k \<longrightarrow> candidate slug j \<in> slugs orgs"
    proof (intro allI impI)
      fix j assume "counter \<le> j \<and> j < k"
      then show "candidate slug j \<in> slugs orgs"
        using True a by (cases "j = counter") auto
    qed
    with k r u step show ?thesis
      by (intro exI [of _ k]) auto
  qed
qed

subsection \<open>Slugs are stored as they are computed\<close>

lemma lower_char_table:
  "list_all (\<lambda>c. lower_char c = c) ''abcdefghijklmnopqrstuvwxyz0123456789-''"
  by (simp add: lower_char_def)

lemma lower_char_slug: "is_alnum c \<or> c = CHR ''-'' \<Longrightarrow> lower_char c = c"
proof -
  assume "is_alnum c \<or> c = CHR ''-''"
  then have "c \<in> set ''abcdefghijklmnopqrstuvwxyz0123456789-''"
    unfolding is_alnum_def by auto
  with lower_char_table show ?thesis
    unfolding list_all_iff by blast
qed

lemma not_space_slug: "is_alnum c \<or> c = CHR ''-'' \<Longrightarrow> \<not> is_space c"
  by (auto simp: is_alnum_def is_space_def)

lemma dropWhile_none: "\<forall>x \<in> set xs. \<not> P x \<Longrightarrow> dropWhile P xs = xs"
  by (cases xs) auto

lemma stored_form_slug:
  assumes "list_all (\<lambda>c. is_alnum c \<or> c = CHR ''-'') s"
  shows "trim (toLowerCase s) = s"
proof -
  have l: "toLowerCase s = s"
    using assms by (simp add: toLowerCase_def list_all_iff lower_char_slug map_idI)
  have "\<forall>c \<in> set s. \<not> is_space c"
    using assms by (auto simp: list_all_iff not_space_slug)
  then have "trim s = s"
    by (simp add: trim_def dropWhile_none)
  with l show ?thesis by simp
qed

lemma squeeze_chars: "list_all (\<lambda>c. is_alnum c \<or> c = CHR ''-'') (squeeze r s)"
  by (induction s arbitrary: r) simp_all

lemma strip_hyphens_subset: "set (strip_hyphens s) \<subseteq> set s"
proof
  fix c assume "c \<in> set (strip_hyphens s)"
  then have "c \<in> set (dropWhile (\<lambda>c. c = CHR ''-'') (rev (dropWhile (\<lambda>c. c = CHR ''-'') s)))"
    by (simp add: strip_hyphens_def)
  then have "c \<in> set (dropWhile (\<lambda>c. c = CHR ''-'') s)"
    using set_dropWhileD by fastforce
  then show "c \<in> set s"
    by (rule set_dropWhileD)
qed

lemma slugify_chars: "list_all (\<lambda>c. is_alnum c \<or> c = CHR ''-'') (slugify n)"
proof -
  have "\<forall>c \<in> set (squeeze False (toLowerCase n)). is_alnum c \<or> c = CHR ''-''"
    using squeeze_chars [of False "toLowerCase n"] by (simp add: list_all_iff)
  then have "\<forall>c \<in> set (slugify n). is_alnum c \<or> c = CHR ''-''"
    using strip_hyphens_subset [of "squeeze False (toLowerCase n)"]
    unfolding slugify_def by blast
  then show ?thesis by (simp add: list_all_iff)
qed

lemma is_digit_alnum: "is_digit c \<Longrightarrow> is_alnum c"
  by (auto simp: is_digit_def is_alnum_def)

lemma candidate_chars:
  assumes "list_all (\<lambda>c. is_alnum c \<or> c = CHR ''-'') s"
  shows "list_all (\<lambda>c. is_alnum c \<or> c = CHR ''-'') (candidate s k)"
proof -
  have "\<forall>c \<in> set (show_nat k). is_alnum c"
    using digits_show_nat [of k] by (simp add: list_all_iff is_digit_alnum)
  with assms show ?thesis
    by (auto simp: candidate_def list_all_iff)
qed

lemma findFreeSlug_chars:
  assumes "list_all (\<lambda>c. is_alnum c \<or> c = CHR ''-'') slug"
  shows "list_all (\<lambda>c. is_alnum c \<or> c = CHR ''-'') (findFreeSlug orgs slug slug counter)"
proof (cases "slug \<in> slugs orgs")
  case True
  from findFreeSlug_least [OF True, of counter slug] obtain k where
    "findFreeSlug orgs slug slug counter = candidate slug k" by blast
  with assms show ?thesis by (simp add: candidate_chars)
next
  case False
  with assms show ?thesis by (simp add: findFreeSlug_unused)
qed

text \<open>The slug \<^verbatim>\<open>register\<close> passes to \<^verbatim>\<open>Organization.create\<close> is stored unchanged.\<close>

lemma finalSlug_stored_form:
  "trim (toLowerCase (findFreeSlug orgs (slugify n) (slugify n) counter))
     = findFreeSlug orgs (slugify n) (slugify n) counter"
  by (rule stored_form_slug [OF findFreeSlug_chars [OF slugify_chars]])


section \<open>Properties of the registration\<close>

lemma Organization_create_SomeD:
  assumes "Organization_create name slug st = Some (org, st1)"
  shows "organizations st1 = organizations st @ [org]"
    and "users st1 = users st"
    and "next_id st1 = Suc (next_id st)"
    and "o_id org = next_id st"
    and "o_name org = trim name"
    and "o_slug org = trim (toLowerCase slug)"
    and "o_slug org \<notin> slugs (organizations st)"
    and "o_ownerId org = None"
  using assms by (auto simp: Organization_create_def Let_def split: if_splits)

lemma User_create_SomeD:
  assumes "User_create email password name organizationId userRole st = Some (u, st1)"
  shows "organizations st1 = organizations st"
    and "users st1 = users st @ [u]"
    and "next_id st1 = Suc (next_id st)"
    and "u_id u = next_id st"
    and "u_role u = userRole"
    and "u_organizationId u = organizationId"
  using assms by (auto simp: User_create_def Let_def split: if_splits)

lemma default_is_stored_form:
  "trim ''Default Organization'' = ''Default Organization''"
  "trim (toLowerCase ''default'') = ''default''"
  by (simp_all add: trim_def toLowerCase_def lower_char_def is_space_def)

lemma handle_organization_named:
  assumes "handle_organization st b = Some (i, r, st1)" and "named b"
  shows "r = Admin \<and> i = next_id st \<and> users st1 = users st \<and> next_id st1 = Suc (next_id st)
       \<and> (\<exists>org. organizations st1 = organizations st @ [org] \<and> o_id org = i
             \<and> o_name org = trim (the (b_organizationName b))
             \<and> o_slug org = findFreeSlug (organizations st)
                   (slugify (the (b_organizationName b))) (slugify (the (b_organizationName b))) 1
             \<and> o_slug org \<notin> slugs (organizations st) \<and> o_ownerId org = None)"
proof -
  from assms obtain org where
    c: "Organization_create (the (b_organizationName b))
          (findFreeSlug (organizations st)
             (slugify (the (b_organizationName b))) (slugify (the (b_organizationName b))) 1)
          st = Some (org, st1)"
    and i: "i = o_id org" and r: "r = Admin"
    by (auto simp: handle_organization_def Let_def split: option.splits)
  show ?thesis
    using Organization_create_SomeD [OF c] i r by (auto simp: finalSlug_stored_form)
qed

lemma handle_organization_unnamed:
  assumes "handle_organization st b = Some (i, r, st1)" and "\<not> named b"
  shows "r = Editor \<and> users st1 = users st
       \<and> (case Organization_findOne st ''default'' of
            Some org0 \<Rightarrow> st1 = st \<and> i = o_id org0
          | None \<Rightarrow> (\<exists>org. organizations st1 = organizations st @ [org] \<and> o_id org = i
                        \<and> o_name org = ''Default Organization'' \<and> o_slug org = ''default''
                        \<and> o_ownerId org = None
                        \<and> i = next_id st \<and> next_id st1 = Suc (next_id st)))"
proof (cases "Organization_findOne st ''default''")
  case (Some org0)
  with assms show ?thesis by (auto simp: handle_organization_def)
next
  case None
  with assms obtain org where
    c: "Organization_create ''Default Organization'' ''default'' st = Some (org, st1)"
    and i: "i = o_id org" and r: "r = Editor"
    by (auto simp: handle_organization_def split: option.splits)
  show ?thesis
    using Organization_create_SomeD [OF c] i r None by (simp add: default_is_stored_form)
qed

lemma register_201D:
  assumes "register e st b = (res, st')" and "res_status res = 201"
  obtains i r st1 u st2 where
    "User_findOne st (b_email b) = None"
    "handle_organization st b = Some (i, r, st1)"
    "User_create (b_email b) (b_password b) (b_name b) i r st1 = Some (u, st2)"
    "res_body res = JsonAuth (generateAccessToken e u) (summary_of u)"
    "organizations st' =
       (if named b then set_owner i (u_id u) (organizations st2) else organizations st2)"
    "next_id st' = next_id st2"
    "users st' = set_refreshToken (u_id u) (generateRefreshToken e u) (users st2)"
  using assms
  by (auto simp: register_def json_error_def Let_def split: option.splits prod.splits if_splits)

lemma set_owner_fresh:
  assumes "list_all (\<lambda>org. o_id org \<noteq> i) orgs"
  shows "set_owner i w (orgs @ [org]) =
           orgs @ [if o_id org = i then org \<lparr> o_ownerId := Some w \<rparr> else org]"
  using assms by (induction orgs) auto

lemma ids_fresh_neq: "ids_fresh st \<Longrightarrow> list_all (\<lambda>org. o_id org \<noteq> next_id st) (organizations st)"
  by (auto simp: ids_fresh_def list_all_iff)

lemma register_named_201:
  assumes "ids_fresh st" and "register e st b = (res, st')" and "res_status res = 201"
    and "named b"
  shows "\<exists>org. organizations st' = organizations st @ [org]
           \<and> o_id org = next_id st
           \<and> o_name org = trim (the (b_organizationName b))
           \<and> o_slug org = findFreeSlug (organizations st)
                 (slugify (the (b_organizationName b))) (slugify (the (b_organizationName b))) 1
           \<and> o_slug org \<notin> slugs (organizations st)"
    and "ids_fresh st'"
proof -
  from assms(2,3) obtain i r st1 u st2 where
    h: "handle_organization st b = Some (i, r, st1)"
    and c: "User_create (b_email b) (b_password b) (b_name b) i r st1 = Some (u, st2)"
    and o: "organizations st' =
       (if named b then set_owner i (u_id u) (organizations st2) else organizations st2)"
    and n: "next_id st' = next_id st2"
    by (rule register_201D)
  from handle_organization_named [OF h assms(4)] obtain org where
    i: "i = next_id st" and n1: "next_id st1 = Suc (next_id st)"
    and o1: "organizations st1 = organizations st @ [org]" and oi: "o_id org = i"
    and nm: "o_name org = trim (the (b_organizationName b))"
    and se: "o_slug org = findFreeSlug (organizations st)
                 (slugify (the (b_organizationName b))) (slugify (the (b_organizationName b))) 1"
    and sl: "o_slug org \<notin> slugs (organizations st)"
    by auto
  have o2: "organizations st2 = organizations st @ [org]"
    using User_create_SomeD(1) [OF c] o1 by simp
  have n2: "next_id st2 = Suc (Suc (next_id st))"
    using User_create_SomeD(3) [OF c] n1 by simp
  have o': "organizations st' = organizations st @ [org \<lparr> o_ownerId := Some (u_id u) \<rparr>]"
    using o o2 assms(4) set_owner_fresh [OF ids_fresh_neq [OF assms(1)], of "u_id u" org] i oi
    by simp
  show "\<exists>org. organizations st' = organizations st @ [org]
           \<and> o_id org = next_id st
           \<and> o_name org = trim (the (b_organizationName b))
           \<and> o_slug org = findFreeSlug (organizations st)
                 (slugify (the (b_organizationName b))) (slugify (the (b_organizationName b))) 1
           \<and> o_slug org \<notin> slugs (organizations st)"
    using o' oi i nm se sl by simp
  show "ids_fresh st'"
    using assms(1) o' n n2 oi i by (auto simp: ids_fresh_def list_all_iff)
qed

lemma set_owner_prefix:
  assumes "list_all (\<lambda>org. o_id org \<noteq> i) orgs"
  shows "\<exists>rest'. set_owner i w (orgs @ rest) = orgs @ rest'"
  using assms by (induction orgs) auto


lemma handle_organization_ids_fresh:
  assumes "ids_fresh st" and "handle_organization st b = Some (i, r, st1)"
  shows "ids_fresh st1"
proof (cases "named b")
  case True
  with handle_organization_named [OF assms(2)] assms(1) show ?thesis
    by (auto simp: ids_fresh_def list_all_iff less_Suc_eq)
next
  case False
  with handle_organization_unnamed [OF assms(2)] assms(1) show ?thesis
    by (cases "Organization_findOne st ''default''")
       (auto simp: ids_fresh_def list_all_iff less_Suc_eq)
qed

text \<open>\<^verbatim>\<open>register\<close> keeps the organization ids below the supply of fresh ids, whatever it answers.\<close>

lemma register_preserves_ids_fresh:
  assumes "ids_fresh st" and "register e st b = (res, st')"
  shows "ids_fresh st'"
proof (cases "res_status res = 201")
  case True
  with assms(2) obtain i r st1 u st2 where
    h: "handle_organization st b = Some (i, r, st1)"
    and c: "User_create (b_email b) (b_password b) (b_name b) i r st1 = Some (u, st2)"
    and o: "organizations st' =
       (if named b then set_owner i (u_id u) (organizations st2) else organizations st2)"
    and n: "next_id st' = next_id st2"
    by (rule register_201D)
  show ?thesis
  proof (cases "named b")
    case True
    with register_named_201(2) [OF assms \<open>res_status res = 201\<close>] show ?thesis by simp
  next
    case False
    have "ids_fresh st1"
      by (rule handle_organization_ids_fresh [OF assms(1) h])
    then show ?thesis
      using o n False User_create_SomeD(1,3) [OF c]
      by (auto simp: ids_fresh_def list_all_iff less_Suc_eq)
  qed
next
  case False
  have "st' = st \<or> (\<exists>i r. handle_organization st b = Some (i, r, st'))"
    using assms(2) False
    by (auto simp: register_def json_error_def Let_def split: option.splits prod.splits)
  then show ?thesis
    using assms(1) handle_organization_ids_fresh by auto
qed



lemmas register_defs =
  register_def handle_organization_def named_def User_findOne_def User_create_def
  Organization_create_def Organization_findOne_def email_ok_def slugify_def strip_hyphens_def
  trim_def toLowerCase_def lower_char_def is_space_def is_alnum_def slugs_def candidate_def
  summary_of_def json_error_def






lemma find_snoc:
  "find P (xs @ [x]) = (case find P xs of Some y \<Rightarrow> Some y | None \<Rightarrow> if P x then Some x else None)"
  by (induction xs) auto

lemma set_refreshToken_fresh:
  assumes "list_all (\<lambda>u. u_id u \<noteq> i) us"
  shows "set_refreshToken i token (us @ [u]) =
           us @ [if u_id u = i then u \<lparr> u_refreshToken := Some token \<rparr> else u]"
  using assms by (induction us) auto

lemma handle_organization_next_id:
  assumes "handle_organization st b = Some (i, r, st1)"
  shows "users st1 = users st \<and> next_id st \<le> next_id st1"
proof (cases "named b")
  case True
  with handle_organization_named [OF assms] show ?thesis by simp
next
  case False
  with handle_organization_unnamed [OF assms] show ?thesis
    by (cases "Organization_findOne st ''default''") auto
qed

text \<open>The row of the new user is appended to the users; the rows before it stay.\<close>

lemma register_201_user:
  assumes "user_ids_fresh st" and "register e st b = (res, st')" and "res_status res = 201"
  shows "\<exists>u i r st1. handle_organization st b = Some (i, r, st1)
           \<and> users st' = users st @ [u] \<and> u_role u = r \<and> u_organizationId u = i
           \<and> res_body res = JsonAuth (generateAccessToken e (u \<lparr> u_refreshToken := None \<rparr>))
                               (summary_of u)
           \<and> organizations st' =
                (if named b then set_owner i (u_id u) (organizations st1)
                 else organizations st1)"
proof -
  from assms(2,3) obtain i r st1 u st2 where
    h: "handle_organization st b = Some (i, r, st1)"
    and c: "User_create (b_email b) (b_password b) (b_name b) i r st1 = Some (u, st2)"
    and body: "res_body res = JsonAuth (generateAccessToken e u) (summary_of u)"
    and o: "organizations st' =
       (if named b then set_owner i (u_id u) (organizations st2) else organizations st2)"
    and us: "users st' = set_refreshToken (u_id u) (generateRefreshToken e u) (users st2)"
    by (rule register_201D)
  have none: "u_refreshToken u = None"
    using c by (auto simp: User_create_def Let_def split: if_splits)
  have "list_all (\<lambda>x. u_id x \<noteq> u_id u) (users st)"
    using assms(1) handle_organization_next_id [OF h] User_create_SomeD(4) [OF c]
    by (auto simp: user_ids_fresh_def list_all_iff)
  then have "users st' = users st @ [u \<lparr> u_refreshToken := Some (generateRefreshToken e u) \<rparr>]"
    using us User_create_SomeD(2) [OF c] handle_organization_next_id [OF h]
    by (simp add: set_refreshToken_fresh)
  moreover have "u \<lparr> u_refreshToken := Some (generateRefreshToken e u) \<rparr>
      \<lparr> u_refreshToken := None \<rparr> = u"
    using none by simp
  ultimately show ?thesis
    using h body o User_create_SomeD(1,5,6) [OF c]
    by (intro exI [of _ "u \<lparr> u_refreshToken := Some (generateRefreshToken e u) \<rparr>"]
        exI [of _ i] exI [of _ r] exI [of _ st1]) (simp add: summary_of_def)
qed

text \<open>\<^verbatim>\<open>register\<close> keeps the user ids below the supply of fresh ids, whatever it answers.\<close>

lemma register_preserves_user_ids_fresh:
  assumes "user_ids_fresh st" and "register e st b = (res, st')"
  shows "user_ids_fresh st'"
proof (cases "res_status res = 201")
  case True
  with assms(2) obtain i r st1 u st2 where
    h: "handle_organization st b = Some (i, r, st1)"
    and c: "User_create (b_email b) (b_password b) (b_name b) i r st1 = Some (u, st2)"
    and n: "next_id st' = next_id st2"
    and us: "users st' = set_refreshToken (u_id u) (generateRefreshToken e u) (users st2)"
    by (rule register_201D)
  have ids: "map u_id (set_refreshToken j t xs) = map u_id xs" for j t xs
    by (induction xs) auto
  have "map u_id (users st') = map u_id (users st) @ [next_id st1]"
    using us ids User_create_SomeD(2,4) [OF c] handle_organization_next_id [OF h] by simp
  moreover have "next_id st' = Suc (next_id st1)" and "next_id st \<le> next_id st1"
    using n User_create_SomeD(3) [OF c] handle_organization_next_id [OF h] by simp_all
  moreover have "\<forall>x \<in> set (map u_id (users st)). x < next_id st"
    using assms(1) by (simp add: user_ids_fresh_def list_all_iff)
  ultimately have "\<forall>x \<in> set (map u_id (users st')). x < next_id st'"
    by auto
  then show ?thesis
    by (simp add: user_ids_fresh_def list_all_iff)
next
  case False
  have "st' = st \<or> (\<exists>i r. handle_organization st b = Some (i, r, st'))"
    using assms(2) False
    by (auto simp: register_def json_error_def Let_def split: option.splits prod.splits)
  then show ?thesis
    using assms(1) handle_organization_next_id
    by (fastforce simp: user_ids_fresh_def list_all_iff)
qed

text \<open>
  C10, as the code has it.  A successful registration appends one user, who is an admin
  exactly when an organization name was given.  Without one the user is an editor of the
  organization that \<^verbatim>\<open>findOne({ slug: 'default' })\<close> returns afterwards.  That is the
  organization stored under the slug before, whoever created it, and then no
  organization is added; or, if none was stored, the one organization this registration
  adds, named \<^verbatim>\<open>Default Organization\<close> and without owner.
\<close>

theorem C10_default_organization:
  assumes "user_ids_fresh st" and "register e st b = (res, st')" and "res_status res = 201"
  shows "\<exists>u token. users st' = users st @ [u]
           \<and> res_body res = JsonAuth token (summary_of u)
           \<and> (u_role u = Admin \<longleftrightarrow> named b)
           \<and> (\<not> named b \<longrightarrow>
                u_role u = Editor
                \<and> (\<exists>org. Organization_findOne st' ''default'' = Some org
                      \<and> o_slug org = ''default''
                      \<and> u_organizationId u = o_id org
                      \<and> (case Organization_findOne st ''default'' of
                            Some org0 \<Rightarrow> org = org0 \<and> organizations st' = organizations st
                          | None \<Rightarrow> organizations st' = organizations st @ [org]
                                     \<and> o_name org = ''Default Organization''
                                     \<and> o_ownerId org = None)))"
proof -
  from register_201_user [OF assms] obtain u i r st1 where
    h: "handle_organization st b = Some (i, r, st1)"
    and us: "users st' = users st @ [u]"
    and role: "u_role u = r" and org: "u_organizationId u = i"
    and body: "res_body res = JsonAuth (generateAccessToken e (u \<lparr> u_refreshToken := None \<rparr>))
                               (summary_of u)"
    and o: "organizations st' =
       (if named b then set_owner i (u_id u) (organizations st1) else organizations st1)"
    by blast
  show ?thesis
  proof (cases "named b")
    case True
    with handle_organization_named [OF h] us body role show ?thesis by auto
  next
    case False
    have o': "organizations st' = organizations st1"
      using o False by simp
    have r: "r = Editor"
      using handle_organization_unnamed [OF h False] by simp
    have "\<exists>org. Organization_findOne st' ''default'' = Some org
            \<and> o_slug org = ''default''
            \<and> u_organizationId u = o_id org
            \<and> (case Organization_findOne st ''default'' of
                  Some org0 \<Rightarrow> org = org0 \<and> organizations st' = organizations st
                | None \<Rightarrow> organizations st' = organizations st @ [org]
                           \<and> o_name org = ''Default Organization''
                           \<and> o_ownerId org = None)"
    proof (cases "Organization_findOne st ''default''")
      case (Some org0)
      then have "st1 = st" and "i = o_id org0"
        using handle_organization_unnamed [OF h False] by simp_all
      moreover have "o_slug org0 = ''default''"
        using Some by (auto simp: Organization_findOne_def dest: find_Some_iff [THEN iffD1])
      ultimately show ?thesis
        using org o' Some by (intro exI [of _ org0]) (simp add: Organization_findOne_def)
    next
      case None
      then obtain d where
        a: "organizations st1 = organizations st @ [d]" and b: "o_id d = i"
        and n: "o_name d = ''Default Organization''" and s: "o_slug d = ''default''"
        and w: "o_ownerId d = None"
        using handle_organization_unnamed [OF h False] by auto
      have "Organization_findOne st' ''default'' = Some d"
        using None a s o' by (simp add: Organization_findOne_def find_snoc)
      then show ?thesis
        using org o' None a b n s w by (intro exI [of _ d]) simp
    qed
    then show ?thesis
      using False us body role r by auto
  qed
qed

lemma register_dana:
  "register env0 store0 body_plain_1 =
     (\<lparr> res_status = 201, res_headers = [(''Set-Cookie'', ''refreshToken=refresh-dana'')],
        res_body = JsonAuth ''tok-dana''
          \<lparr> s_id = 201, s_email = ''dana@example.org'', s_name = ''Dana'', s_role = Editor,
            s_organizationId = 200 \<rparr> \<rparr>,
      store_dana)"
  by (simp add: register_defs sample_defs body_plain_1_def store_dana_def Let_def)

lemma register_frank:
  "register env0 store0 body_default_named =
     (\<lparr> res_status = 201, res_headers = [(''Set-Cookie'', ''refreshToken=refresh-frank'')],
        res_body = JsonAuth ''tok-frank''
          \<lparr> s_id = 201, s_email = ''frank@default.io'', s_name = ''Frank'', s_role = Admin,
            s_organizationId = 200 \<rparr> \<rparr>,
      store_frank)"
  by (simp add: register_defs sample_defs body_default_named_def store_frank_def
      findFreeSlug.simps Let_def)

text \<open>
  Two unrelated registrants without an organization name on the sample store, which has
  no organization with the slug \<^verbatim>\<open>default\<close>: the first creates it and becomes its editor,
  the second becomes an editor of the same organization and none is added.
\<close>

theorem C10_default_organization_witness:
  "user_ids_fresh store0
   \<and> res_status (fst (register env0 store0 body_plain_1)) = 201
   \<and> snd (register env0 store0 body_plain_1) = store_dana
   \<and> \<not> named body_plain_1
   \<and> Organization_findOne store0 ''default'' = None
   \<and> (\<exists>u org. users store_dana = users store0 @ [u] \<and> u_role u = Editor
         \<and> u_organizationId u = o_id org
         \<and> organizations store_dana = organizations store0 @ [org]
         \<and> o_name org = ''Default Organization'' \<and> o_slug org = ''default'')
   \<and> user_ids_fresh store_dana
   \<and> res_status (fst (register env0 store_dana body_plain_2)) = 201
   \<and> \<not> named body_plain_2
   \<and> (\<exists>u org. users (snd (register env0 store_dana body_plain_2)) = users store_dana @ [u]
         \<and> u_role u = Editor
         \<and> Organization_findOne store_dana ''default'' = Some org
         \<and> u_organizationId u = o_id org
         \<and> organizations (snd (register env0 store_dana body_plain_2))
             = organizations store_dana)"
proof -
  have f0: "user_ids_fresh store0" and f1: "user_ids_fresh store_dana"
    by (simp_all add: user_ids_fresh_def store_dana_def sample_defs)
  have n: "\<not> named body_plain_1" "\<not> named body_plain_2"
    by (simp_all add: named_def body_plain_1_def body_plain_2_def)
  have none: "Organization_findOne store0 ''default'' = None"
    by (simp add: Organization_findOne_def store0_def)
  have some: "Organization_findOne store_dana ''default''
      = Some \<lparr> o_id = 200, o_name = ''Default Organization'', o_slug = ''default'',
               o_ownerId = None \<rparr>"
    by (simp add: Organization_findOne_def store_dana_def store0_def)
  have s1: "res_status (fst (register env0 store0 body_plain_1)) = 201"
    and t1: "snd (register env0 store0 body_plain_1) = store_dana"
    and r1: "register env0 store0 body_plain_1
      = (fst (register env0 store0 body_plain_1), store_dana)"
    by (simp_all add: register_dana)
  have s2: "res_status (fst (register env0 store_dana body_plain_2)) = 201"
    by (simp add: register_defs sample_defs body_plain_2_def store_dana_def Let_def)
  have r2: "register env0 store_dana body_plain_2
      = (fst (register env0 store_dana body_plain_2), snd (register env0 store_dana body_plain_2))"
    by simp
  have first: "\<exists>u org. users store_dana = users store0 @ [u] \<and> u_role u = Editor
         \<and> u_organizationId u = o_id org
         \<and> organizations store_dana = organizations store0 @ [org]
         \<and> o_name org = ''Default Organization'' \<and> o_slug org = ''default''"
    using C10_default_organization [OF f0 r1 s1] n(1) none by auto
  have second: "\<exists>u org. users (snd (register env0 store_dana body_plain_2))
             = users store_dana @ [u]
         \<and> u_role u = Editor
         \<and> Organization_findOne store_dana ''default'' = Some org
         \<and> u_organizationId u = o_id org
         \<and> organizations (snd (register env0 store_dana body_plain_2))
             = organizations store_dana"
    using C10_default_organization [OF f1 r2 s2] n(2) some by auto
  show ?thesis
    using f0 s1 t1 n none first f1 s2 second by simp
qed

text \<open>
  C10 as stated fails.  Frank registered with the organization name \<^verbatim>\<open>Default\<close>, whose slug
  is \<^verbatim>\<open>default\<close>.  Dana is the first to register without an organization name: no
  organization is created for her, she becomes an editor of Frank's organization.
\<close>

theorem C10_created_on_first_counterexample:
  "named body_default_named
   \<and> Organization_findOne store0 ''default'' = None
   \<and> snd (register env0 store0 body_default_named) = store_frank
   \<and> \<not> named body_plain_1
   \<and> res_status (fst (register env0 store_frank body_plain_1)) = 201
   \<and> organizations (snd (register env0 store_frank body_plain_1)) = organizations store_frank
   \<and> res_body (fst (register env0 store_frank body_plain_1))
       = JsonAuth ''tok-dana''
           \<lparr> s_id = 202, s_email = ''dana@example.org'', s_name = ''Dana'', s_role = Editor,
             s_organizationId = 200 \<rparr>
   \<and> Organization_findOne store_frank ''default''
       = Some \<lparr> o_id = 200, o_name = ''Default'', o_slug = ''default'', o_ownerId = Some 201 \<rparr>"
proof -
  have "register env0 store_frank body_plain_1 =
     (\<lparr> res_status = 201, res_headers = [(''Set-Cookie'', ''refreshToken=refresh-dana'')],
        res_body = JsonAuth ''tok-dana''
          \<lparr> s_id = 202, s_email = ''dana@example.org'', s_name = ''Dana'', s_role = Editor,
            s_organizationId = 200 \<rparr> \<rparr>,
      store_frank \<lparr> users := users store_frank @
                     [\<lparr> u_id = 202, u_email = ''dana@example.org'', u_name = ''Dana'',
                        u_role = Editor, u_organizationId = 200, u_isActive = True,
                        u_refreshToken = Some ''refresh-dana'' \<rparr>],
                   next_id := 203 \<rparr>)"
    by (simp add: register_defs sample_defs body_plain_1_def store_frank_def Let_def)
  then show ?thesis
    by (simp only: register_frank fst_conv snd_conv)
       (simp add: named_def body_default_named_def body_plain_1_def Organization_findOne_def
          store_frank_def store0_def)
qed


end
